theory Spec2Isabelle
  imports Complex_Main
begin

section \<open>JavaScript values used by the fiscal services\<close>

subsection \<open>Numbers\<close>

text \<open>
  A JavaScript number is an IEEE-754 binary64 value. A finite one is represented by its
  exact rational value; the two infinities and NaN are constructors of their own. The
  negative zero is identified with zero (every number of the services comes from a JSON
  integer or decimal, or from arithmetic on those).
\<close>

datatype number = Fin rat | PosInf | NegInf | NaN

fun bit_length :: "nat \<Rightarrow> nat" where
  "bit_length n = (if n = 0 then 0 else Suc (bit_length (n div 2)))"

declare bit_length.simps [simp del]

text \<open>\<open>ilog2 a\<close> is the integer part of the binary logarithm of a positive rational.\<close>

definition ilog2 :: "rat \<Rightarrow> int" where
  "ilog2 a = (if 1 \<le> a then int (bit_length (nat \<lfloor>a\<rfloor>)) - 1
              else - int (bit_length (nat (\<lceil>1 / a\<rceil> - 1))))"

definition pow2 :: "int \<Rightarrow> rat" where
  "pow2 e = (if 0 \<le> e then 2 ^ nat e else 1 / 2 ^ nat (- e))"

definition round_half_even :: "rat \<Rightarrow> int" where
  "round_half_even q =
     (let f = \<lfloor>q\<rfloor>; d = q - of_int f
      in if d < 1 / 2 then f else if 1 / 2 < d then f + 1
         else if even f then f else f + 1)"

text \<open>
  Rounding of an exact result to binary64, to nearest with ties to even: 53 significant
  bits, the least exponent of a normal number -1022 (below it the spacing stays
  \<open>2^-1074\<close>), overflow to an infinity from \<open>2^1024\<close> on.
\<close>

definition binary64 :: "rat \<Rightarrow> number" where
  "binary64 x =
     (if x = 0 then Fin 0
      else let a = \<bar>x\<bar>;
               q = pow2 (max (ilog2 a) (- 1022) - 52);
               r = of_int (round_half_even (a / q)) * q
           in if pow2 1024 \<le> r then (if x < 0 then NegInf else PosInf)
              else Fin (if x < 0 then - r else r))"

text \<open>The operators \<open>*\<close> and \<open>/\<close> of JavaScript.\<close>

fun fmul :: "number \<Rightarrow> number \<Rightarrow> number" where
  "fmul (Fin a) (Fin b) = binary64 (a * b)"
| "fmul NaN y = NaN"
| "fmul x NaN = NaN"
| "fmul (Fin a) PosInf = (if a = 0 then NaN else if 0 < a then PosInf else NegInf)"
| "fmul (Fin a) NegInf = (if a = 0 then NaN else if 0 < a then NegInf else PosInf)"
| "fmul PosInf (Fin b) = (if b = 0 then NaN else if 0 < b then PosInf else NegInf)"
| "fmul NegInf (Fin b) = (if b = 0 then NaN else if 0 < b then NegInf else PosInf)"
| "fmul PosInf PosInf = PosInf"
| "fmul PosInf NegInf = NegInf"
| "fmul NegInf PosInf = NegInf"
| "fmul NegInf NegInf = PosInf"

fun fdiv :: "number \<Rightarrow> number \<Rightarrow> number" where
  "fdiv (Fin a) (Fin b) =
     (if b = 0 then (if a = 0 then NaN else if 0 < a then PosInf else NegInf)
      else binary64 (a / b))"
| "fdiv NaN y = NaN"
| "fdiv x NaN = NaN"
| "fdiv (Fin a) PosInf = Fin 0"
| "fdiv (Fin a) NegInf = Fin 0"
| "fdiv PosInf (Fin b) = (if 0 \<le> b then PosInf else NegInf)"
| "fdiv NegInf (Fin b) = (if 0 \<le> b then NegInf else PosInf)"
| "fdiv PosInf PosInf = NaN"
| "fdiv PosInf NegInf = NaN"
| "fdiv NegInf PosInf = NaN"
| "fdiv NegInf NegInf = NaN"

text \<open>The comparison \<open>x > 0\<close>, and the truthiness of a number (0 and NaN are falsy).\<close>

fun gt0 :: "number \<Rightarrow> bool" where
  "gt0 (Fin a) = (0 < a)"
| "gt0 PosInf = True"
| "gt0 NegInf = False"
| "gt0 NaN = False"

fun truthy_number :: "number \<Rightarrow> bool" where
  "truthy_number (Fin a) = (a \<noteq> 0)"
| "truthy_number NaN = False"
| "truthy_number x = True"

subsection \<open>Number.prototype.toFixed\<close>

definition digit_char :: "nat \<Rightarrow> char" where
  "digit_char d = ''0123456789'' ! d"

fun decimal :: "nat \<Rightarrow> string" where
  "decimal n = (if n < 10 then [digit_char n] else decimal (n div 10) @ [digit_char (n mod 10)])"

declare decimal.simps [simp del]

text \<open>
  \<open>toFixed f\<close> on a finite value: the integer \<open>n\<close> nearest to \<open>x * 10^f\<close> (the larger one
  of two), written in decimal, padded with zeros on the left to \<open>f + 1\<close> digits, and the
  point set before the last \<open>f\<close> digits. From \<open>10^21\<close> on JavaScript prints the number
  with an exponent instead; such magnitudes are outside the range of this model, which
  keeps printing the digits.
\<close>

definition fixed_digits :: "nat \<Rightarrow> rat \<Rightarrow> string" where
  "fixed_digits f a =
     (let n = nat \<lfloor>a * 10 ^ f + 1 / 2\<rfloor>;
          m = decimal n;
          m' = (if length m \<le> f then replicate (f + 1 - length m) (CHR ''0'') @ m else m);
          k = length m'
      in if f = 0 then m' else take (k - f) m' @ ''.'' @ drop (k - f) m')"

fun toFixed :: "nat \<Rightarrow> number \<Rightarrow> string" where
  "toFixed f (Fin x) = (if x < 0 then ''-'' @ fixed_digits f (- x) else fixed_digits f x)"
| "toFixed f PosInf = ''Infinity''"
| "toFixed f NegInf = ''-Infinity''"
| "toFixed f NaN = ''NaN''"

subsection \<open>Strings\<close>

text \<open>
  A string is well-formed Unicode text, held as its UTF-8 bytes (a JavaScript string with
  an unpaired surrogate has no counterpart here). \<open>toUpperCase\<close> maps the letters a to
  z; the currency codes it is applied to are ASCII.
\<close>

definition upper_char :: "char \<Rightarrow> char" where
  "upper_char c =
     (case map_of (zip ''abcdefghijklmnopqrstuvwxyz'' ''ABCDEFGHIJKLMNOPQRSTUVWXYZ'') c of
        Some u \<Rightarrow> u
      | None \<Rightarrow> c)"

definition toUpperCase :: "string \<Rightarrow> string" where
  "toUpperCase s = map upper_char s"

text \<open>\<open>Array.prototype.join\<close> on strings.\<close>

fun join :: "string \<Rightarrow> string list \<Rightarrow> string" where
  "join sep [] = []"
| "join sep [x] = x"
| "join sep (x # y # ys) = x @ sep @ join sep (y # ys)"

text \<open>Truthiness of an optional string: absent and empty strings are falsy.\<close>

fun truthy :: "string option \<Rightarrow> bool" where
  "truthy None = False"
| "truthy (Some s) = (s \<noteq> [])"

text \<open>
  Lengths of a string held as UTF-8 bytes. The database counts characters: every byte
  that is not a continuation byte (\<open>10xxxxxx\<close>) begins one. \<open>String.prototype.length\<close>
  counts UTF-16 code units: a character of four bytes (lead byte \<open>11110xxx\<close>) takes two.
  The length of a \<open>Buffer\<close> is the number of bytes.
\<close>

definition is_continuation :: "char \<Rightarrow> bool" where
  "is_continuation c = (digit7 c \<and> \<not> digit6 c)"

definition is_lead4 :: "char \<Rightarrow> bool" where
  "is_lead4 c = (digit7 c \<and> digit6 c \<and> digit5 c \<and> digit4 c)"

definition char_count :: "string \<Rightarrow> nat" where
  "char_count s = length (filter (\<lambda>c. \<not> is_continuation c) s)"

definition utf16_length :: "string \<Rightarrow> nat" where
  "utf16_length s = char_count s + length (filter is_lead4 s)"

text \<open>The first \<open>n\<close> characters of a string, with their continuation bytes.\<close>

fun take_chars :: "nat \<Rightarrow> string \<Rightarrow> string" where
  "take_chars n [] = []"
| "take_chars n (c # cs) =
     (if is_continuation c then c # take_chars n cs
      else (case n of 0 \<Rightarrow> [] | Suc m \<Rightarrow> c # take_chars m cs))"

subsection \<open>Errors\<close>

text \<open>
  What a call throws: an \<open>Error\<close> with its message, a \<open>TypeError\<close> of the language (a
  property read or a method called on a value that has none), or the rejection of a
  request or of a database statement.
\<close>

datatype error = Error string | TypeError | Rejected


section \<open>Currency conversion service\<close>

subsection \<open>Tables\<close>

record currency_info =
  code :: string
  bacenCode :: string
  currency_name :: string
  symbol :: string

text \<open>The symbols of EUR, GBP and JPY are written as their UTF-8 bytes.\<close>

definition CURRENCIES :: "currency_info list" where
  "CURRENCIES =
     [\<lparr>code = ''USD'', bacenCode = ''220'', currency_name = ''US Dollar'', symbol = ''$''\<rparr>,
      \<lparr>code = ''EUR'', bacenCode = ''978'', currency_name = ''Euro'',
         symbol = [CHR 0xE2, CHR 0x82, CHR 0xAC]\<rparr>,
      \<lparr>code = ''GBP'', bacenCode = ''540'', currency_name = ''British Pound'',
         symbol = [CHR 0xC2, CHR 0xA3]\<rparr>,
      \<lparr>code = ''CAD'', bacenCode = ''165'', currency_name = ''Canadian Dollar'', symbol = ''C$''\<rparr>,
      \<lparr>code = ''AUD'', bacenCode = ''150'', currency_name = ''Australian Dollar'', symbol = ''A$''\<rparr>,
      \<lparr>code = ''JPY'', bacenCode = ''470'', currency_name = ''Japanese Yen'',
         symbol = [CHR 0xC2, CHR 0xA5]\<rparr>,
      \<lparr>code = ''CHF'', bacenCode = ''510'', currency_name = ''Swiss Franc'', symbol = ''CHF''\<rparr>,
      \<lparr>code = ''BRL'', bacenCode = ''986'', currency_name = ''Brazilian Real'', symbol = ''R$''\<rparr>]"

text \<open>
  The decimal literals 0.037 and 6.2 denote the binary64 values nearest to them; the
  other entries are binary64 values themselves.
\<close>

definition FALLBACK_RATES :: "string \<Rightarrow> number option" where
  "FALLBACK_RATES =
     map_of [(''USD'', Fin (11 / 2)), (''EUR'', Fin 6), (''GBP'', Fin 7), (''CAD'', Fin 4),
             (''AUD'', Fin (7 / 2)), (''JPY'', binary64 (37 / 1000)), (''CHF'', binary64 (31 / 5))]"

subsection \<open>Results and the services consulted\<close>

datatype conversion_source = stripe_balance | ptax | fallback

record CurrencyConversionResult =
  amountBrl :: number
  originalAmount :: number
  originalCurrency :: string
  exchangeRate :: number
  source :: conversion_source
  rateDate :: string
  auditDescription :: string
  stripeFeesBrl :: "number option"
  netAmountBrl :: "number option"

record StripeBalanceInfo =
  sb_grossAmountBrl :: number
  sb_feesBrl :: number
  sb_netAmountBrl :: number
  sb_exchangeRate :: number
  sb_originalAmount :: number
  sb_originalCurrency :: string

text \<open>
  What the payment processor answers. A field that can be expanded is absent, the bare
  identifier (not expanded), or the expanded object.
\<close>

datatype 'a expandable = Absent | Unexpanded string | Expanded 'a

record balance_transaction =
  bt_amount :: number
  bt_fee :: number
  bt_net :: number

record charge =
  charge_id :: string
  charge_amount :: number
  charge_currency :: string
  charge_balance_transaction :: "balance_transaction expandable"

record payment_intent =
  pi_latest_charge :: "charge expandable"

text \<open>
  What the official rate service answers to one request: the request, the decoding of
  its body or the reading of the decoded body throws (all inside the \<open>try\<close> of the
  lookup), the status is not 2xx, or a JSON body whose field \<open>value\<close> is absent or an
  array. The body is cast, not checked: an element of the array is \<open>None\<close> when it is
  falsy (null), and the two rates of a quote are \<open>None\<close> when the field is missing or
  holds anything but a number. The date of a quote is copied to the result and nothing
  is computed from it.
\<close>

record cotacao =
  cotacaoCompra :: "number option"
  cotacaoVenda :: "number option"
  dataHoraCotacao :: string

datatype fetch_result = FetchThrows | NotOk | JsonBody "cotacao option list option"

record ptax_rate =
  buyRate :: "number option"
  sellRate :: "number option"
  rate_date :: string

text \<open>
  The world around one call: the two retrievals of the payment processor (\<open>None\<close> when
  the call throws), the rate service, addressed by the currency and the target date (from
  which the request formats its date parameter), and the clock, read as milliseconds and
  as the ISO string of the same instant.
\<close>

record world =
  charges_retrieve :: "string \<Rightarrow> charge option"
  paymentIntents_retrieve :: "string \<Rightarrow> payment_intent option"
  fetch_ptax :: "string \<Rightarrow> int \<Rightarrow> fetch_result"
  now_ms :: int
  now_iso :: string

subsection \<open>Processor settlement lookup\<close>

definition getStripeBalanceInfo :: "world \<Rightarrow> string \<Rightarrow> StripeBalanceInfo option" where
  "getStripeBalanceInfo w chargeId =
     (case charges_retrieve w chargeId of
        None \<Rightarrow> None
      | Some ch \<Rightarrow>
          (case charge_balance_transaction ch of
             Expanded balanceTransaction \<Rightarrow>
               (let grossAmount = bt_amount balanceTransaction;
                    feeAmount = bt_fee balanceTransaction;
                    netAmount = bt_net balanceTransaction;
                    origCurrency = toUpperCase (charge_currency ch);
                    rate = (if origCurrency \<noteq> ''BRL''
                            then fdiv grossAmount (charge_amount ch) else Fin 1)
                in Some \<lparr>sb_grossAmountBrl = fdiv grossAmount (Fin 100),
                          sb_feesBrl = fdiv feeAmount (Fin 100),
                          sb_netAmountBrl = fdiv netAmount (Fin 100),
                          sb_exchangeRate = rate,
                          sb_originalAmount = charge_amount ch,
                          sb_originalCurrency = origCurrency\<rparr>)
           | _ \<Rightarrow> None))"

definition getStripeBalanceInfoFromPaymentIntent :: "world \<Rightarrow> string \<Rightarrow> StripeBalanceInfo option" where
  "getStripeBalanceInfoFromPaymentIntent w paymentIntentId =
     (case paymentIntents_retrieve w paymentIntentId of
        None \<Rightarrow> None
      | Some paymentIntent \<Rightarrow>
          (case pi_latest_charge paymentIntent of
             Expanded ch \<Rightarrow> getStripeBalanceInfo w (charge_id ch)
           | _ \<Rightarrow> None))"

subsection \<open>Official daily rate lookup\<close>

text \<open>
  A date is its time value in milliseconds, at most 8.64e15 in magnitude.
  \<open>setDate(getDate() - 1)\<close> moves it one calendar day back: 24 hours, in a time zone
  without a clock change on that day (with one it is 23 or 25 hours, which the test below
  does not tell apart either). Below the least date the result is the invalid date
  (\<open>None\<close>), whose time value is NaN; every comparison with NaN is false.
\<close>

definition previous_day :: "int \<Rightarrow> int option" where
  "previous_day targetDate =
     (let t = targetDate - 1000 * 60 * 60 * 24
      in if \<bar>t\<bar> \<le> 8640000000000000 then Some t else None)"

definition within_bound :: "int \<Rightarrow> int option \<Rightarrow> bool" where
  "within_bound targetDate previousDay =
     (case previousDay of
        None \<Rightarrow> False
      | Some p \<Rightarrow> rat_of_int (targetDate - p) / rat_of_int (1000 * 60 * 60 * 24) \<le> 7)"

text \<open>
  The lookup is recursive on the previous day; the result \<open>None\<close> is null. The recursion
  ends at the least date at the latest.
\<close>

function getPTAXRate :: "world \<Rightarrow> string \<Rightarrow> int option \<Rightarrow> ptax_rate option" where
  "getPTAXRate w currency date =
     (let targetDate = (case date of Some d \<Rightarrow> d | None \<Rightarrow> now_ms w) in
      case fetch_ptax w currency targetDate of
        FetchThrows \<Rightarrow> None
      | NotOk \<Rightarrow> None
      | JsonBody v \<Rightarrow>
          (case v of
             Some (q # qs) \<Rightarrow>
               (case last (q # qs) of
                  None \<Rightarrow> None
                | Some latestRate \<Rightarrow>
                    Some \<lparr>buyRate = cotacaoCompra latestRate,
                          sellRate = cotacaoVenda latestRate,
                          rate_date = dataHoraCotacao latestRate\<rparr>)
           | _ \<Rightarrow>
               (let previousDay = previous_day targetDate
                in if within_bound targetDate previousDay
                   then getPTAXRate w currency previousDay
                   else None)))"
  by pat_completeness auto
termination
proof (relation "measure (\<lambda>(w, currency, date).
         nat ((case date of Some d \<Rightarrow> d | None \<Rightarrow> now_ms w) + 8640000000000000))")
qed (auto simp: previous_day_def within_bound_def Let_def split: if_splits option.splits)

declare getPTAXRate.simps [simp del]

subsection \<open>Fallback table and audit text\<close>

definition getFallbackRate :: "string \<Rightarrow> number" where
  "getFallbackRate currency =
     (case FALLBACK_RATES (toUpperCase currency) of
        Some r \<Rightarrow> if truthy_number r then r else Fin (11 / 2)
      | None \<Rightarrow> Fin (11 / 2))"

fun sourceLabels :: "conversion_source \<Rightarrow> string" where
  "sourceLabels stripe_balance = ''Taxa de Convers'' @ [CHR 0xC3, CHR 0xA3] @ ''o Stripe''"
| "sourceLabels ptax = ''Taxa PTAX (Banco Central)''"
| "sourceLabels fallback = ''Taxa de Convers'' @ [CHR 0xC3, CHR 0xA3] @ ''o Estimada''"

definition currency_symbol :: "string \<Rightarrow> string" where
  "currency_symbol currency =
     (case find (\<lambda>c. code c = currency) CURRENCIES of
        Some currencyObj \<Rightarrow> if symbol currencyObj \<noteq> [] then symbol currencyObj else currency
      | None \<Rightarrow> currency)"

definition fees_shown :: "number option \<Rightarrow> bool" where
  "fees_shown fees = (case fees of None \<Rightarrow> False | Some f \<Rightarrow> truthy_number f \<and> gt0 f)"

definition buildAuditDescription ::
  "number \<Rightarrow> string \<Rightarrow> number \<Rightarrow> conversion_source \<Rightarrow> number option \<Rightarrow> string" where
  "buildAuditDescription origAmount currency rate src fees =
     (let description = ''Valor original: '' @ currency_symbol currency @ toFixed 2 origAmount
                        @ '' - '' @ sourceLabels src @ '': R$ '' @ toFixed 4 rate
      in if fees_shown fees
         then description @ '' - Taxas operacionais: R$ '' @ toFixed 2 (the fees)
         else description)"

subsection \<open>convertToBRL\<close>

definition brl_audit_text :: string where
  "brl_audit_text = ''Pagamento em BRL - sem convers'' @ [CHR 0xC3, CHR 0xA3] @ ''o necess''
                    @ [CHR 0xC3, CHR 0xA1] @ ''ria''"

definition from_stripe ::
  "number \<Rightarrow> string \<Rightarrow> string \<Rightarrow> StripeBalanceInfo \<Rightarrow> CurrencyConversionResult" where
  "from_stripe amount currencyUpper today stripeInfo =
     \<lparr>amountBrl = sb_grossAmountBrl stripeInfo,
      originalAmount = amount,
      originalCurrency = currencyUpper,
      exchangeRate = sb_exchangeRate stripeInfo,
      source = stripe_balance,
      rateDate = today,
      auditDescription = buildAuditDescription amount currencyUpper (sb_exchangeRate stripeInfo)
                           stripe_balance (Some (sb_feesBrl stripeInfo)),
      stripeFeesBrl = Some (sb_feesBrl stripeInfo),
      netAmountBrl = Some (sb_netAmountBrl stripeInfo)\<rparr>"

text \<open>
  The function has one path that throws: a quote whose sell rate is not a number reaches
  \<open>rate.toFixed(4)\<close> of the audit text, outside every \<open>try\<close>.
\<close>

definition convertToBRL ::
  "world \<Rightarrow> number \<Rightarrow> string \<Rightarrow> string option \<Rightarrow> string option
     \<Rightarrow> error + CurrencyConversionResult" where
  "convertToBRL w amount currency chargeId paymentIntentId =
     (let currencyUpper = toUpperCase currency in
      if currencyUpper = ''BRL''
      then Inr \<lparr>amountBrl = amount,
                originalAmount = amount,
                originalCurrency = ''BRL'',
                exchangeRate = Fin 1,
                source = stripe_balance,
                rateDate = now_iso w,
                auditDescription = brl_audit_text,
                stripeFeesBrl = None,
                netAmountBrl = None\<rparr>
      else
        let today = takeWhile (\<lambda>c. c \<noteq> CHR ''T'') (now_iso w) in
        case (if truthy chargeId then getStripeBalanceInfo w (the chargeId) else None) of
          Some stripeInfo \<Rightarrow> Inr (from_stripe amount currencyUpper today stripeInfo)
        | None \<Rightarrow>
            (case (if truthy paymentIntentId
                   then getStripeBalanceInfoFromPaymentIntent w (the paymentIntentId)
                   else None) of
               Some stripeInfo \<Rightarrow> Inr (from_stripe amount currencyUpper today stripeInfo)
             | None \<Rightarrow>
                 (case getPTAXRate w currencyUpper None of
                    Some ptaxRate \<Rightarrow>
                      (case sellRate ptaxRate of
                         None \<Rightarrow> Inl TypeError
                       | Some rate \<Rightarrow>
                           Inr \<lparr>amountBrl = fmul amount rate,
                                originalAmount = amount,
                                originalCurrency = currencyUpper,
                                exchangeRate = rate,
                                source = ptax,
                                rateDate = rate_date ptaxRate,
                                auditDescription = buildAuditDescription amount currencyUpper
                                                     rate ptax None,
                                stripeFeesBrl = None,
                                netAmountBrl = None\<rparr>)
                  | None \<Rightarrow>
                      (let fallbackRate = getFallbackRate currencyUpper
                       in Inr \<lparr>amountBrl = fmul amount fallbackRate,
                               originalAmount = amount,
                               originalCurrency = currencyUpper,
                               exchangeRate = fallbackRate,
                               source = fallback,
                               rateDate = today,
                               auditDescription = buildAuditDescription amount currencyUpper
                                                    fallbackRate fallback None,
                               stripeFeesBrl = None,
                               netAmountBrl = None\<rparr>))))"


section \<open>Persisted records\<close>

text \<open>
  The two tables of the fiscal schema. A nullable column is an option, a timestamp its
  time value in milliseconds. Where two tables or objects share a field name, the later
  one carries a prefix.
\<close>

text \<open>
  The database (PostgreSQL) takes no string that holds the character U+0000, neither as
  the value of a column nor as a parameter of a statement: the statement fails.
\<close>

definition without_nul :: "string \<Rightarrow> bool" where
  "without_nul s \<longleftrightarrow> CHR 0x00 \<notin> set s"

text \<open>
  A column \<open>varchar(n)\<close> takes a string of at most \<open>n\<close> characters as it is. A longer
  one is cut to \<open>n\<close> characters when all the characters in excess are spaces, and makes
  the statement fail otherwise (\<open>None\<close>). A column \<open>text\<close> has no limit.
\<close>

definition varchar :: "nat \<Rightarrow> string \<Rightarrow> string option" where
  "varchar n s =
     (if \<not> without_nul s then None
      else if char_count s \<le> n then Some s
      else let kept = take_chars n s;
               excess = drop (length kept) s
           in if excess = replicate (length excess) (CHR '' '') then Some kept else None)"

definition varchar_null :: "nat \<Rightarrow> string option \<Rightarrow> string option option" where
  "varchar_null n x = (case x of None \<Rightarrow> Some None | Some s \<Rightarrow> map_option Some (varchar n s))"

text \<open>Whether a value is accepted by its column, and the value the column then holds.\<close>

definition accepts :: "nat \<Rightarrow> string \<Rightarrow> bool" where
  "accepts n s = (varchar n s \<noteq> None)"

definition accepts_null :: "nat \<Rightarrow> string option \<Rightarrow> bool" where
  "accepts_null n x = (varchar_null n x \<noteq> None)"

definition accepts_text :: "string option \<Rightarrow> bool" where
  "accepts_text x = (case x of None \<Rightarrow> True | Some s \<Rightarrow> without_nul s)"

definition stored :: "nat \<Rightarrow> string \<Rightarrow> string" where
  "stored n s = (case varchar n s of Some s' \<Rightarrow> s' | None \<Rightarrow> s)"

definition stored_null :: "nat \<Rightarrow> string option \<Rightarrow> string option" where
  "stored_null n x = (case varchar_null n x of Some x' \<Rightarrow> x' | None \<Rightarrow> x)"

record tax_info =
  ti_id :: int
  ti_userId :: int
  country :: string
  isBrazilian :: bool
  cpfCnpj :: "string option"
  nif :: "string option"
  nifExemptionCode :: "string option"
  fullName :: string
  address :: "string option"
  street_number :: "string option"
  complement :: "string option"
  neighborhood :: "string option"
  city :: "string option"
  cityCode :: "string option"
  state :: "string option"
  postalCode :: "string option"
  inscricaoMunicipal :: "string option"
  ti_createdAt :: int
  ti_updatedAt :: int

record nfse_row =
  nfse_id :: int
  userId :: int
  taxInfoId :: int
  fiscalNacionalId :: "string option"
  fiscalNacionalReference :: string
  stripeSubscriptionId :: "string option"
  stripeInvoiceId :: "string option"
  stripePaymentIntentId :: "string option"
  stripeChargeId :: "string option"
  transactionType :: string
  nfseNumber :: "string option"
  status :: string
  serviceDescription :: string
  productName :: "string option"
  valueBrl :: number
  valueUsd :: "number option"
  row_originalAmount :: "number option"
  row_originalCurrency :: "string option"
  currencyCode :: "string option"
  row_exchangeRate :: "number option"
  issRate :: number
  issValue :: number
  customerName :: string
  customerEmail :: string
  customerCountry :: string
  customerDocument :: "string option"
  pdfUrl :: "string option"
  xmlUrl :: "string option"
  errorMessage :: "string option"
  errorDetails :: "string option"
  issuedAt :: "int option"
  cancelledAt :: "int option"
  cancellationReason :: "string option"
  createdAt :: int
  updatedAt :: int

record fiscal_db =
  userTaxInfo_rows :: "tax_info list"
  userTaxInfo_seq :: int
  nfse_rows :: "nfse_row list"
  nfse_seq :: int

section \<open>Webhook reconciliation\<close>

record webhook_payload =
  wh_event :: string
  wh_reference :: string
  wh_status :: string
  wh_nfse_number :: "string option"
  wh_pdf_url :: "string option"
  wh_xml_url :: "string option"
  wh_error_message :: "string option"
  wh_timestamp :: string

text \<open>
  The object \<open>updateData\<close>: the two keys always set, and one option for each key that is
  set under a condition (\<open>None\<close> when the key is not in the object).
\<close>

record update_data =
  set_status :: string
  set_updatedAt :: int
  set_issuedAt :: "int option"
  set_nfseNumber :: "string option"
  set_pdfUrl :: "string option"
  set_xmlUrl :: "string option"
  set_errorMessage :: "string option"
  set_cancelledAt :: "int option"

text \<open>\<open>update(nfse).set(updateData).where(eq(fiscalNacionalReference, reference))\<close>\<close>

definition apply_update :: "update_data \<Rightarrow> nfse_row \<Rightarrow> nfse_row" where
  "apply_update u r =
     r\<lparr>status := set_status u,
       updatedAt := set_updatedAt u,
       issuedAt := (case set_issuedAt u of Some t \<Rightarrow> Some t | None \<Rightarrow> issuedAt r),
       nfseNumber := (case set_nfseNumber u of Some x \<Rightarrow> Some x | None \<Rightarrow> nfseNumber r),
       pdfUrl := (case set_pdfUrl u of Some x \<Rightarrow> Some x | None \<Rightarrow> pdfUrl r),
       xmlUrl := (case set_xmlUrl u of Some x \<Rightarrow> Some x | None \<Rightarrow> xmlUrl r),
       errorMessage := (case set_errorMessage u of Some x \<Rightarrow> Some x | None \<Rightarrow> errorMessage r),
       cancelledAt := (case set_cancelledAt u of Some t \<Rightarrow> Some t | None \<Rightarrow> cancelledAt r)\<rparr>"

definition update_nfse_where_reference :: "update_data \<Rightarrow> string \<Rightarrow> nfse_row list \<Rightarrow> nfse_row list" where
  "update_nfse_where_reference u reference rows =
     map (\<lambda>r. if fiscalNacionalReference r = reference then apply_update u r else r) rows"

text \<open>\<open>if (x) updateData.k = x\<close>: the key is set when the value is present and not empty.\<close>

definition if_truthy :: "string option \<Rightarrow> string option" where
  "if_truthy x = (if truthy x then x else None)"

text \<open>
  The environment of the handler: the configured secret, HMAC-SHA256 with hexadecimal
  digest (by key and message), the decoding of the body (\<open>JSON.parse\<close> and the schema,
  which asks for strings only; \<open>None\<close> when either throws), the two readings of the
  clock an update can make, and whether the database executes the statement (it throws
  otherwise).
\<close>

record webhook_env =
  FISCAL_WEBHOOK_SECRET :: "string option"
  hmac_sha256_hex :: "string \<Rightarrow> string \<Rightarrow> string"
  parse_webhook :: "string \<Rightarrow> webhook_payload option"
  clock_first :: int
  clock_second :: int
  db_up :: bool

definition timingSafeEqual :: "string \<Rightarrow> string \<Rightarrow> bool" where
  "timingSafeEqual a b = (a = b)"

definition webhook_updateData :: "webhook_env \<Rightarrow> webhook_payload \<Rightarrow> update_data" where
  "webhook_updateData env data =
     (let authorized = (wh_status data = ''authorized'') in
      \<lparr>set_status = wh_status data,
       set_updatedAt = clock_first env,
       set_issuedAt = (if authorized then Some (clock_second env) else None),
       set_nfseNumber = (if authorized then if_truthy (wh_nfse_number data) else None),
       set_pdfUrl = (if authorized then if_truthy (wh_pdf_url data) else None),
       set_xmlUrl = (if authorized then if_truthy (wh_xml_url data) else None),
       set_errorMessage =
         (if wh_status data = ''error''
          then Some (if truthy (wh_error_message data) then the (wh_error_message data)
                     else ''Unknown error'')
          else None),
       set_cancelledAt = (if wh_status data = ''cancelled'' then Some (clock_second env) else None)\<rparr>)"

text \<open>
  The values of the update as the columns take them (status and invoice number
  \<open>varchar(50)\<close>, the two addresses \<open>varchar(500)\<close>, the error message \<open>text\<close>); \<open>None\<close>
  when a value is refused and the statement fails.
\<close>

definition store_update :: "update_data \<Rightarrow> update_data option" where
  "store_update u =
     (if accepts 50 (set_status u) \<and> accepts_null 50 (set_nfseNumber u)
         \<and> accepts_null 500 (set_pdfUrl u) \<and> accepts_null 500 (set_xmlUrl u)
         \<and> accepts_text (set_errorMessage u)
      then Some (u\<lparr>set_status := stored 50 (set_status u),
                   set_nfseNumber := stored_null 50 (set_nfseNumber u),
                   set_pdfUrl := stored_null 500 (set_pdfUrl u),
                   set_xmlUrl := stored_null 500 (set_xmlUrl u)\<rparr>)
      else None)"

text \<open>
  The handler of \<open>POST /webhook\<close>: the status code of the response and the table after
  the request. A body that does not decode throws outside the handler's own
  \<open>try\<close> and is answered 500 by the application's error handler; a statement that the
  database refuses or cannot execute throws inside it and is answered 500 as well.
\<close>

definition webhook ::
  "webhook_env \<Rightarrow> string option \<Rightarrow> string \<Rightarrow> nfse_row list \<Rightarrow> nat \<times> nfse_row list" where
  "webhook env signature body rows =
     (if \<not> truthy signature \<or> \<not> truthy (FISCAL_WEBHOOK_SECRET env) then (401, rows)
      else
        let expectedSignature = hmac_sha256_hex env (the (FISCAL_WEBHOOK_SECRET env)) body;
            signatureBuffer = the signature;
            expectedBuffer = expectedSignature
        in if length signatureBuffer \<noteq> length expectedBuffer
              \<or> \<not> timingSafeEqual signatureBuffer expectedBuffer
           then (401, rows)
           else (case parse_webhook env body of
                   None \<Rightarrow> (500, rows)
                 | Some data \<Rightarrow>
                     (case store_update (webhook_updateData env data) of
                        None \<Rightarrow> (500, rows)
                      | Some updateData \<Rightarrow>
                          if db_up env \<and> without_nul (wh_reference data)
                          then (200, update_nfse_where_reference updateData
                                       (wh_reference data) rows)
                          else (500, rows))))"

text \<open>The service's method of the same update; \<open>None\<close> when the statement throws.\<close>

record update_params =
  up_reference :: string
  up_status :: string
  up_nfseNumber :: "string option"
  up_pdfUrl :: "string option"
  up_xmlUrl :: "string option"
  up_errorMessage :: "string option"

definition updateNFSeFromWebhook ::
  "webhook_env \<Rightarrow> update_params \<Rightarrow> nfse_row list \<Rightarrow> nfse_row list option" where
  "updateNFSeFromWebhook env params rows =
     (let authorized = (up_status params = ''authorized'');
          updateData =
            \<lparr>set_status = up_status params,
             set_updatedAt = clock_first env,
             set_issuedAt = (if authorized then Some (clock_second env) else None),
             set_nfseNumber = (if authorized then if_truthy (up_nfseNumber params) else None),
             set_pdfUrl = (if authorized then if_truthy (up_pdfUrl params) else None),
             set_xmlUrl = (if authorized then if_truthy (up_xmlUrl params) else None),
             set_errorMessage =
               (if up_status params = ''error''
                then Some (if truthy (up_errorMessage params) then the (up_errorMessage params)
                           else ''Unknown error'')
                else None),
             set_cancelledAt =
               (if up_status params = ''cancelled'' then Some (clock_second env) else None)\<rparr>
      in case store_update updateData of
           None \<Rightarrow> None
         | Some accepted \<Rightarrow>
             if db_up env \<and> without_nul (up_reference params)
             then Some (update_nfse_where_reference accepted (up_reference params) rows)
             else None)"


section \<open>Invoice issuance\<close>

subsection \<open>The request to the tax API\<close>

record FiscalNacionalConfig =
  cfg_cnpj :: string
  cfg_inscricaoMunicipal :: string
  cfg_codigoMunicipio :: string
  cfg_itemListaServico :: string
  cfg_codigoTributacaoMunicipio :: string
  cfg_codigoCnae :: string
  cfg_aliquotaIss :: number

text \<open>
  The fields of the customer payload are options where the builder can leave a null
  behind a non-null assertion.
\<close>

record NFSeTomadorEndereco =
  logradouro :: "string option"
  numero :: "string option"
  complemento :: "string option"
  bairro :: "string option"
  codigoMunicipio :: "string option"
  uf :: "string option"
  cep :: string

record NFSeTomador =
  t_cpfCnpj :: "string option"
  nomeRazaoSocial :: string
  t_email :: string
  endereco :: "NFSeTomadorEndereco option"
  pais :: "string option"
  t_nif :: "string option"
  enderecoExterior :: "string option"

record NFSeServico =
  valorServicos :: number
  itemListaServico :: string
  codigoTributacaoMunicipio :: string
  discriminacao :: string
  codigoCnae :: string

record NFSeImpostos =
  issRetido :: bool
  aliquotaIss :: "number option"

record CreateNFSeRequest =
  tomador :: NFSeTomador
  servico :: NFSeServico
  impostos :: "NFSeImpostos option"
  observacoes :: "string option"
  referenciaExterna :: string

record CreateNFSeResponse =
  resp_reference :: "string option"
  resp_status :: "string option"
  resp_nfseNumber :: "string option"
  resp_verificationCode :: "string option"
  resp_pdfUrl :: "string option"
  resp_xmlUrl :: "string option"

text \<open>
  What the tax API answers to the POST of one request: the request or the decoding of the
  answer throws, a status that is not 2xx with the \<open>message\<close> of its JSON body and its
  status text, or a 2xx answer with the fields the client reads.
\<close>

datatype api_outcome =
    ApiThrows
  | ApiNotOk "string option" string
  | ApiOk CreateNFSeResponse

subsection \<open>The client\<close>

definition createNFSe ::
  "(CreateNFSeRequest \<Rightarrow> api_outcome) \<Rightarrow> CreateNFSeRequest \<Rightarrow> error + CreateNFSeResponse" where
  "createNFSe api request =
     (case api request of
        ApiThrows \<Rightarrow> Inl Rejected
      | ApiNotOk message statusText \<Rightarrow>
          Inl (Error (''Failed to create NFS-e: ''
                      @ (if truthy message then the message else statusText)))
      | ApiOk data \<Rightarrow> Inr data)"

subsection \<open>Customer payload and service description\<close>

definition digits_only :: "string \<Rightarrow> string" where
  "digits_only s = filter (\<lambda>c. c \<in> set ''0123456789'') s"

definition or_undefined :: "string option \<Rightarrow> string option" where
  "or_undefined x = (if truthy x then x else None)"

definition buildTomadorFromTaxInfo :: "tax_info \<Rightarrow> string \<Rightarrow> error + NFSeTomador" where
  "buildTomadorFromTaxInfo taxInfo email =
     (if isBrazilian taxInfo then
        (case (if fullName taxInfo \<noteq> [] then Inr (fullName taxInfo)
               else (case cpfCnpj taxInfo of
                       None \<Rightarrow> Inl TypeError
                     | Some doc \<Rightarrow>
                         Inr ((if utf16_length doc \<le> 11 then ''CPF'' else ''CNPJ'') @ '' '' @ doc))) of
           Inl e \<Rightarrow> Inl e
         | Inr razaoSocial \<Rightarrow>
             (case postalCode taxInfo of
                None \<Rightarrow> Inl TypeError
              | Some pc \<Rightarrow>
                  Inr \<lparr>t_cpfCnpj = cpfCnpj taxInfo,
                       nomeRazaoSocial = razaoSocial,
                       t_email = email,
                       endereco = Some \<lparr>logradouro = address taxInfo,
                                        numero = street_number taxInfo,
                                        complemento = or_undefined (complement taxInfo),
                                        bairro = neighborhood taxInfo,
                                        codigoMunicipio = cityCode taxInfo,
                                        uf = state taxInfo,
                                        cep = digits_only pc\<rparr>,
                       pais = None,
                       t_nif = None,
                       enderecoExterior = None\<rparr>))
      else
        (let parts = filter truthy [address taxInfo, city taxInfo, postalCode taxInfo];
             joined = join '', '' (map the parts);
             internationalAddress = (if joined \<noteq> [] then Some joined else None)
         in Inr \<lparr>t_cpfCnpj = None,
                 nomeRazaoSocial = fullName taxInfo,
                 t_email = email,
                 endereco = None,
                 pais = Some (country taxInfo),
                 t_nif = or_undefined (nif taxInfo),
                 enderecoExterior = internationalAddress\<rparr>))"

fun source_string :: "conversion_source \<Rightarrow> string" where
  "source_string stripe_balance = ''stripe_balance''"
| "source_string ptax = ''ptax''"
| "source_string fallback = ''fallback''"

definition buildServiceDescription ::
  "string \<Rightarrow> number \<Rightarrow> string \<Rightarrow> number \<Rightarrow> string \<Rightarrow> string" where
  "buildServiceDescription product amount currency rate src =
     join [CHR 0x0A]
       [''Servi'' @ [CHR 0xC3, CHR 0xA7] @ ''o: '' @ product,
        ''Valor Original: '' @ toFixed 2 amount @ '' '' @ currency,
        ''Taxa de C'' @ [CHR 0xC3, CHR 0xA2] @ ''mbio: '' @ toFixed 4 rate,
        ''Fonte: '' @ src]"

text \<open>User identifiers and credit amounts are integers, printed in decimal.\<close>

definition show_int :: "int \<Rightarrow> string" where
  "show_int i = (if i < 0 then ''-'' @ decimal (nat (- i)) else decimal (nat i))"

subsection \<open>The issuer\<close>

text \<open>
  The environment of the issuer: the world of the currency conversion, the tax API, the
  company configuration, and whether the database executes statements (a statement
  throws otherwise).
\<close>

record issuer_env =
  conversion_world :: world
  fiscal_api :: "CreateNFSeRequest \<Rightarrow> api_outcome"
  companyConfig :: FiscalNacionalConfig
  database_up :: bool

text \<open>
  The outcome of a call: the identifier of the new row or the error thrown,
  the database after the call, and the requests sent to the tax API, in order.
\<close>

record outcome =
  result :: "error + int"
  db_after :: fiscal_db
  api_calls :: "CreateNFSeRequest list"

definition select_tax_info :: "fiscal_db \<Rightarrow> int \<Rightarrow> tax_info option" where
  "select_tax_info db uid = find (\<lambda>t. ti_userId t = uid) (userTaxInfo_rows db)"

text \<open>
  \<open>insert(nfse).values(...).returning()\<close>: the database draws the identifier from the
  sequence and sets both timestamps. The statement throws when the reference is null or
  already in the table, or when a value is refused by its column; the table then stays
  as it was.
\<close>

definition nfse_accepted :: "nfse_row \<Rightarrow> bool" where
  "nfse_accepted r \<longleftrightarrow>
     accepts_null 255 (fiscalNacionalId r) \<and> accepts 255 (fiscalNacionalReference r)
     \<and> accepts_null 255 (stripeSubscriptionId r) \<and> accepts_null 255 (stripeInvoiceId r)
     \<and> accepts_null 255 (stripePaymentIntentId r) \<and> accepts_null 255 (stripeChargeId r)
     \<and> accepts 50 (transactionType r) \<and> accepts_null 50 (nfseNumber r)
     \<and> accepts 50 (status r) \<and> accepts_null 255 (productName r)
     \<and> accepts_null 3 (row_originalCurrency r) \<and> accepts_null 3 (currencyCode r)
     \<and> accepts 255 (customerName r) \<and> accepts 255 (customerEmail r)
     \<and> accepts 2 (customerCountry r) \<and> accepts_null 50 (customerDocument r)
     \<and> accepts_null 500 (pdfUrl r) \<and> accepts_null 500 (xmlUrl r)
     \<and> without_nul (serviceDescription r) \<and> accepts_text (errorMessage r)
     \<and> accepts_text (errorDetails r) \<and> accepts_text (cancellationReason r)"

definition nfse_stored :: "nfse_row \<Rightarrow> nfse_row" where
  "nfse_stored r =
     r\<lparr>fiscalNacionalId := stored_null 255 (fiscalNacionalId r),
       fiscalNacionalReference := stored 255 (fiscalNacionalReference r),
       stripeSubscriptionId := stored_null 255 (stripeSubscriptionId r),
       stripeInvoiceId := stored_null 255 (stripeInvoiceId r),
       stripePaymentIntentId := stored_null 255 (stripePaymentIntentId r),
       stripeChargeId := stored_null 255 (stripeChargeId r),
       transactionType := stored 50 (transactionType r),
       nfseNumber := stored_null 50 (nfseNumber r),
       status := stored 50 (status r),
       productName := stored_null 255 (productName r),
       row_originalCurrency := stored_null 3 (row_originalCurrency r),
       currencyCode := stored_null 3 (currencyCode r),
       customerName := stored 255 (customerName r),
       customerEmail := stored 255 (customerEmail r),
       customerCountry := stored 2 (customerCountry r),
       customerDocument := stored_null 50 (customerDocument r),
       pdfUrl := stored_null 500 (pdfUrl r),
       xmlUrl := stored_null 500 (xmlUrl r)\<rparr>"

definition insert_nfse ::
  "int \<Rightarrow> string option \<Rightarrow> (string \<Rightarrow> nfse_row) \<Rightarrow> fiscal_db \<Rightarrow> (nfse_row option \<times> fiscal_db)" where
  "insert_nfse now reference values db =
     (let new_id = nfse_seq db + 1;
          db' = db\<lparr>nfse_seq := new_id\<rparr>
      in case reference of
           None \<Rightarrow> (None, db')
         | Some ref \<Rightarrow>
             if \<not> nfse_accepted (values ref) then (None, db')
             else
               (let row = (nfse_stored (values ref))
                            \<lparr>nfse_id := new_id, createdAt := now, updatedAt := now\<rparr>
                in if fiscalNacionalReference row \<in> fiscalNacionalReference ` set (nfse_rows db)
                   then (None, db')
                   else (Some row, db'\<lparr>nfse_rows := nfse_rows db @ [row]\<rparr>)))"

record subscription_params =
  sp_userId :: int
  sp_stripeSubscriptionId :: string
  sp_stripeInvoiceId :: string
  sp_stripeChargeId :: "string option"
  sp_stripePaymentIntentId :: "string option"
  sp_amount :: number
  sp_currency :: string
  sp_planName :: string
  sp_userEmail :: string

record credit_params =
  cp_userId :: int
  cp_stripePaymentIntentId :: string
  cp_stripeChargeId :: "string option"
  cp_amount :: number
  cp_currency :: string
  cp_creditAmount :: int
  cp_userEmail :: string

definition document_of :: "tax_info \<Rightarrow> string option" where
  "document_of taxInfo =
     (if truthy (cpfCnpj taxInfo) then cpfCnpj taxInfo
      else if truthy (nif taxInfo) then nif taxInfo else None)"

definition createNFSeForSubscription ::
  "issuer_env \<Rightarrow> fiscal_db \<Rightarrow> subscription_params \<Rightarrow> outcome" where
  "createNFSeForSubscription env db params =
     (if \<not> database_up env then \<lparr>result = Inl Rejected, db_after = db, api_calls = []\<rparr>
      else case select_tax_info db (sp_userId params) of
        None \<Rightarrow> \<lparr>result = Inl (Error ''User tax information not found''),
                       db_after = db, api_calls = []\<rparr>
      | Some taxInfo \<Rightarrow>
          (case convertToBRL (conversion_world env) (sp_amount params) (sp_currency params)
                  (sp_stripeChargeId params) (sp_stripePaymentIntentId params) of
             Inl e \<Rightarrow> \<lparr>result = Inl e, db_after = db, api_calls = []\<rparr>
           | Inr conversion \<Rightarrow>
               (let description = buildServiceDescription (sp_planName params) (sp_amount params)
                                    (sp_currency params) (exchangeRate conversion)
                                    (source_string (source conversion));
                    externalReference = ''user_'' @ show_int (sp_userId params) @ ''_sub_''
                                        @ sp_stripeSubscriptionId params
                in case buildTomadorFromTaxInfo taxInfo (sp_userEmail params) of
                     Inl e \<Rightarrow> \<lparr>result = Inl e, db_after = db, api_calls = []\<rparr>
                   | Inr customer \<Rightarrow>
                       (let request =
                              \<lparr>tomador = customer,
                               servico = \<lparr>valorServicos = amountBrl conversion,
                                          itemListaServico = cfg_itemListaServico (companyConfig env),
                                          codigoTributacaoMunicipio =
                                            cfg_codigoTributacaoMunicipio (companyConfig env),
                                          discriminacao = description,
                                          codigoCnae = cfg_codigoCnae (companyConfig env)\<rparr>,
                               impostos = Some \<lparr>issRetido = False,
                                                aliquotaIss = Some (cfg_aliquotaIss (companyConfig env))\<rparr>,
                               observacoes = None,
                               referenciaExterna = externalReference\<rparr>
                        in case createNFSe (fiscal_api env) request of
                             Inl e \<Rightarrow> \<lparr>result = Inl e, db_after = db, api_calls = [request]\<rparr>
                           | Inr fiscalResponse \<Rightarrow>
                               (case insert_nfse (now_ms (conversion_world env))
                                       (resp_reference fiscalResponse)
                                       (\<lambda>ref.
                                          \<lparr>nfse_id = 0,
                                           userId = sp_userId params,
                                           taxInfoId = ti_id taxInfo,
                                           fiscalNacionalId = None,
                                           fiscalNacionalReference = ref,
                                           stripeSubscriptionId = Some (sp_stripeSubscriptionId params),
                                           stripeInvoiceId = Some (sp_stripeInvoiceId params),
                                           stripePaymentIntentId = or_undefined (sp_stripePaymentIntentId params),
                                           stripeChargeId = or_undefined (sp_stripeChargeId params),
                                           transactionType = ''subscription'',
                                           nfseNumber = or_undefined (resp_nfseNumber fiscalResponse),
                                           status = (case resp_status fiscalResponse of
                                                       Some st \<Rightarrow> st | None \<Rightarrow> ''processing''),
                                           serviceDescription = description,
                                           productName = Some (sp_planName params),
                                           valueBrl = amountBrl conversion,
                                           valueUsd = (if sp_currency params = ''USD''
                                                       then Some (sp_amount params) else None),
                                           row_originalAmount = Some (sp_amount params),
                                           row_originalCurrency = Some (sp_currency params),
                                           currencyCode = None,
                                           row_exchangeRate = Some (exchangeRate conversion),
                                           issRate = binary64 (2 / 100),
                                           issValue = Fin 0,
                                           customerName = fullName taxInfo,
                                           customerEmail = sp_userEmail params,
                                           customerCountry = country taxInfo,
                                           customerDocument = document_of taxInfo,
                                           pdfUrl = or_undefined (resp_pdfUrl fiscalResponse),
                                           xmlUrl = or_undefined (resp_xmlUrl fiscalResponse),
                                           errorMessage = None,
                                           errorDetails = None,
                                           issuedAt = None,
                                           cancelledAt = None,
                                           cancellationReason = None,
                                           createdAt = 0,
                                           updatedAt = 0\<rparr>) db of
                                  (None, db') \<Rightarrow>
                                    \<lparr>result = Inl Rejected, db_after = db', api_calls = [request]\<rparr>
                                | (Some created, db') \<Rightarrow>
                                    \<lparr>result = Inr (nfse_id created), db_after = db',
                                          api_calls = [request]\<rparr>)))))"

definition createNFSeForCreditPurchase ::
  "issuer_env \<Rightarrow> fiscal_db \<Rightarrow> credit_params \<Rightarrow> outcome" where
  "createNFSeForCreditPurchase env db params =
     (if \<not> database_up env then \<lparr>result = Inl Rejected, db_after = db, api_calls = []\<rparr>
      else case select_tax_info db (cp_userId params) of
        None \<Rightarrow> \<lparr>result = Inl (Error ''User tax information not found''),
                       db_after = db, api_calls = []\<rparr>
      | Some taxInfo \<Rightarrow>
          (case convertToBRL (conversion_world env) (cp_amount params) (cp_currency params)
                  (cp_stripeChargeId params) (Some (cp_stripePaymentIntentId params)) of
             Inl e \<Rightarrow> \<lparr>result = Inl e, db_after = db, api_calls = []\<rparr>
           | Inr conversion \<Rightarrow>
               (let product = show_int (cp_creditAmount params) @ '' Credits'';
                    description = buildServiceDescription product (cp_amount params)
                                    (cp_currency params) (exchangeRate conversion)
                                    (source_string (source conversion));
                    externalReference = ''user_'' @ show_int (cp_userId params) @ ''_credits_''
                                        @ cp_stripePaymentIntentId params
                in case buildTomadorFromTaxInfo taxInfo (cp_userEmail params) of
                     Inl e \<Rightarrow> \<lparr>result = Inl e, db_after = db, api_calls = []\<rparr>
                   | Inr customer \<Rightarrow>
                       (let request =
                              \<lparr>tomador = customer,
                               servico = \<lparr>valorServicos = amountBrl conversion,
                                          itemListaServico = cfg_itemListaServico (companyConfig env),
                                          codigoTributacaoMunicipio =
                                            cfg_codigoTributacaoMunicipio (companyConfig env),
                                          discriminacao = description,
                                          codigoCnae = cfg_codigoCnae (companyConfig env)\<rparr>,
                               impostos = Some \<lparr>issRetido = False,
                                                aliquotaIss = Some (cfg_aliquotaIss (companyConfig env))\<rparr>,
                               observacoes = None,
                               referenciaExterna = externalReference\<rparr>
                        in case createNFSe (fiscal_api env) request of
                             Inl e \<Rightarrow> \<lparr>result = Inl e, db_after = db, api_calls = [request]\<rparr>
                           | Inr fiscalResponse \<Rightarrow>
                               (case insert_nfse (now_ms (conversion_world env))
                                       (resp_reference fiscalResponse)
                                       (\<lambda>ref.
                                          \<lparr>nfse_id = 0,
                                           userId = cp_userId params,
                                           taxInfoId = ti_id taxInfo,
                                           fiscalNacionalId = None,
                                           fiscalNacionalReference = ref,
                                           stripeSubscriptionId = None,
                                           stripeInvoiceId = None,
                                           stripePaymentIntentId = Some (cp_stripePaymentIntentId params),
                                           stripeChargeId = or_undefined (cp_stripeChargeId params),
                                           transactionType = ''credit_purchase'',
                                           nfseNumber = or_undefined (resp_nfseNumber fiscalResponse),
                                           status = (case resp_status fiscalResponse of
                                                       Some st \<Rightarrow> st | None \<Rightarrow> ''processing''),
                                           serviceDescription = description,
                                           productName = Some product,
                                           valueBrl = amountBrl conversion,
                                           valueUsd = (if cp_currency params = ''USD''
                                                       then Some (cp_amount params) else None),
                                           row_originalAmount = Some (cp_amount params),
                                           row_originalCurrency = Some (cp_currency params),
                                           currencyCode = None,
                                           row_exchangeRate = Some (exchangeRate conversion),
                                           issRate = binary64 (2 / 100),
                                           issValue = Fin 0,
                                           customerName = fullName taxInfo,
                                           customerEmail = cp_userEmail params,
                                           customerCountry = country taxInfo,
                                           customerDocument = document_of taxInfo,
                                           pdfUrl = or_undefined (resp_pdfUrl fiscalResponse),
                                           xmlUrl = or_undefined (resp_xmlUrl fiscalResponse),
                                           errorMessage = None,
                                           errorDetails = None,
                                           issuedAt = None,
                                           cancelledAt = None,
                                           cancellationReason = None,
                                           createdAt = 0,
                                           updatedAt = 0\<rparr>) db of
                                  (None, db') \<Rightarrow>
                                    \<lparr>result = Inl Rejected, db_after = db', api_calls = [request]\<rparr>
                                | (Some created, db') \<Rightarrow>
                                    \<lparr>result = Inr (nfse_id created), db_after = db',
                                          api_calls = [request]\<rparr>)))))"


section \<open>Tax profile submission\<close>

text \<open>
  The body of \<open>POST /tax-info\<close> after decoding. The key \<open>internationalAddress\<close> is not
  a column of the table and is not written.
\<close>

record tax_info_data =
  d_country :: string
  d_isBrazilian :: bool
  d_cpfCnpj :: "string option"
  d_nif :: "string option"
  d_fullName :: string
  d_address :: "string option"
  d_number :: "string option"
  d_complement :: "string option"
  d_neighborhood :: "string option"
  d_city :: "string option"
  d_cityCode :: "string option"
  d_state :: "string option"
  d_postalCode :: "string option"
  d_internationalAddress :: "string option"

definition keep_or :: "'a option \<Rightarrow> 'a option \<Rightarrow> 'a option" where
  "keep_or new old = (case new of Some x \<Rightarrow> Some x | None \<Rightarrow> old)"

definition set_tax_info :: "tax_info_data \<Rightarrow> int \<Rightarrow> tax_info \<Rightarrow> tax_info" where
  "set_tax_info d now t =
     t\<lparr>country := d_country d,
       isBrazilian := d_isBrazilian d,
       cpfCnpj := keep_or (d_cpfCnpj d) (cpfCnpj t),
       nif := keep_or (d_nif d) (nif t),
       fullName := d_fullName d,
       address := keep_or (d_address d) (address t),
       street_number := keep_or (d_number d) (street_number t),
       complement := keep_or (d_complement d) (complement t),
       neighborhood := keep_or (d_neighborhood d) (neighborhood t),
       city := keep_or (d_city d) (city t),
       cityCode := keep_or (d_cityCode d) (cityCode t),
       state := keep_or (d_state d) (state t),
       postalCode := keep_or (d_postalCode d) (postalCode t),
       ti_updatedAt := now\<rparr>"

definition new_tax_info :: "tax_info_data \<Rightarrow> int \<Rightarrow> int \<Rightarrow> int \<Rightarrow> tax_info" where
  "new_tax_info d now uid new_id =
     \<lparr>ti_id = new_id, ti_userId = uid, country = d_country d, isBrazilian = d_isBrazilian d,
      cpfCnpj = d_cpfCnpj d, nif = d_nif d, nifExemptionCode = None, fullName = d_fullName d,
      address = d_address d, street_number = d_number d, complement = d_complement d,
      neighborhood = d_neighborhood d, city = d_city d, cityCode = d_cityCode d,
      state = d_state d, postalCode = d_postalCode d, inscricaoMunicipal = None,
      ti_createdAt = now, ti_updatedAt = now\<rparr>"

text \<open>The values of a submission as the columns of the table take them.\<close>

definition tax_data_accepted :: "tax_info_data \<Rightarrow> bool" where
  "tax_data_accepted d \<longleftrightarrow>
     accepts 2 (d_country d) \<and> accepts_null 20 (d_cpfCnpj d) \<and> accepts_null 50 (d_nif d)
     \<and> accepts 255 (d_fullName d) \<and> accepts_null 255 (d_address d)
     \<and> accepts_null 20 (d_number d) \<and> accepts_null 100 (d_complement d)
     \<and> accepts_null 100 (d_neighborhood d) \<and> accepts_null 100 (d_city d)
     \<and> accepts_null 10 (d_cityCode d) \<and> accepts_null 2 (d_state d)
     \<and> accepts_null 10 (d_postalCode d)"

definition tax_data_stored :: "tax_info_data \<Rightarrow> tax_info_data" where
  "tax_data_stored d =
     d\<lparr>d_country := stored 2 (d_country d),
       d_cpfCnpj := stored_null 20 (d_cpfCnpj d),
       d_nif := stored_null 50 (d_nif d),
       d_fullName := stored 255 (d_fullName d),
       d_address := stored_null 255 (d_address d),
       d_number := stored_null 20 (d_number d),
       d_complement := stored_null 100 (d_complement d),
       d_neighborhood := stored_null 100 (d_neighborhood d),
       d_city := stored_null 100 (d_city d),
       d_cityCode := stored_null 10 (d_cityCode d),
       d_state := stored_null 2 (d_state d),
       d_postalCode := stored_null 10 (d_postalCode d)\<rparr>"

text \<open>
  The handler, for an authenticated user: the status code of the response and the
  database after the request. The schema of the body asks for a country of two UTF-16
  code units and a full name that is not empty. A statement that the database refuses
  or cannot execute throws and is answered 500 by the application's error handler.
\<close>

definition post_tax_info ::
  "bool \<Rightarrow> int \<Rightarrow> int \<Rightarrow> tax_info_data \<Rightarrow> fiscal_db \<Rightarrow> nat \<times> fiscal_db" where
  "post_tax_info up now uid d db =
     (if utf16_length (d_country d) \<noteq> 2 \<or> d_fullName d = [] then (400, db)
      else if d_isBrazilian d
              \<and> (\<not> truthy (d_cpfCnpj d) \<or> \<not> truthy (d_address d) \<or> \<not> truthy (d_cityCode d))
      then (400, db)
      else if \<not> d_isBrazilian d \<and> d_fullName d = [] then (400, db)
      else if \<not> up then (500, db)
      else case find (\<lambda>t. ti_userId t = uid) (userTaxInfo_rows db) of
             Some existing \<Rightarrow>
               if \<not> tax_data_accepted d then (500, db)
               else (200, db\<lparr>userTaxInfo_rows :=
                               map (\<lambda>t. if ti_userId t = uid
                                        then set_tax_info (tax_data_stored d) now t else t)
                                   (userTaxInfo_rows db)\<rparr>)
           | None \<Rightarrow>
               if \<not> tax_data_accepted d then (500, db)
               else
                 (let new_id = userTaxInfo_seq db + 1
                  in (201, db\<lparr>userTaxInfo_rows :=
                                 userTaxInfo_rows db
                                 @ [new_tax_info (tax_data_stored d) now uid new_id],
                               userTaxInfo_seq := new_id\<rparr>)))"


section \<open>Properties stated by the specification\<close>

text \<open>
  The audit string as the specification words it, read off a result:
  \<open>Valor original: <symbol><amount> - <source label>: R$ <rate to 4 decimals>\<close>,
  followed by \<open> - Taxas operacionais: R$ <fees>\<close> when fees are present and positive.
\<close>

definition audit_form :: "CurrencyConversionResult \<Rightarrow> string" where
  "audit_form r =
     ''Valor original: '' @ currency_symbol (originalCurrency r) @ toFixed 2 (originalAmount r)
     @ '' - '' @ sourceLabels (source r) @ '': R$ '' @ toFixed 4 (exchangeRate r)
     @ (if fees_shown (stripeFeesBrl r)
        then '' - Taxas operacionais: R$ '' @ toFixed 2 (the (stripeFeesBrl r)) else [])"

text \<open>
  A string that a column of \<open>n\<close> characters takes as it is, and an optional value that
  is absent or such a string.
\<close>

definition fits :: "nat \<Rightarrow> string \<Rightarrow> bool" where
  "fits n s \<longleftrightarrow> without_nul s \<and> char_count s \<le> n"

definition fits_null :: "nat \<Rightarrow> string option \<Rightarrow> bool" where
  "fits_null n x = (case x of None \<Rightarrow> True | Some s \<Rightarrow> fits n s)"

text \<open>
  All-or-nothing issuance, read off the outcome of a call for a user whose tax profile
  lookup gave \<open>profile\<close> and whose payment the currency conversion answers with
  \<open>conversion\<close>: without a profile the call throws (the error
  \<open>User tax information not found\<close> when the lookup itself ran) and no request was
  sent; when the conversion throws, the call throws the same error and no request was
  sent; a request answered with a status that is not 2xx makes the call throw with the
  message of the tax API; a call that throws leaves the invoice table as it was; and a
  change of the invoice table is one row appended, after the single request sent was
  answered 2xx, with the identifier of the row as the result.
\<close>

definition all_or_nothing ::
  "issuer_env \<Rightarrow> fiscal_db \<Rightarrow> tax_info option \<Rightarrow> error + CurrencyConversionResult
     \<Rightarrow> outcome \<Rightarrow> bool" where
  "all_or_nothing env db profile conversion out \<longleftrightarrow>
     (profile = None \<longrightarrow>
        (\<exists>e. result out = Inl e) \<and> api_calls out = []
        \<and> (database_up env \<longrightarrow> result out = Inl (Error ''User tax information not found'')))
   \<and> (\<forall>e. conversion = Inl e \<longrightarrow>
          (\<exists>e'. result out = Inl e') \<and> api_calls out = []
          \<and> (database_up env \<and> profile \<noteq> None \<longrightarrow> result out = Inl e))
   \<and> (\<forall>request message statusText.
         request \<in> set (api_calls out) \<and> fiscal_api env request = ApiNotOk message statusText \<longrightarrow>
         result out = Inl (Error (''Failed to create NFS-e: ''
                                   @ (if truthy message then the message else statusText))))
   \<and> ((\<exists>e. result out = Inl e) \<longrightarrow> nfse_rows (db_after out) = nfse_rows db)
   \<and> (nfse_rows (db_after out) \<noteq> nfse_rows db \<longrightarrow>
        (\<exists>request response row.
           api_calls out = [request] \<and> fiscal_api env request = ApiOk response
           \<and> nfse_rows (db_after out) = nfse_rows db @ [row] \<and> result out = Inr (nfse_id row)))"


section \<open>Example inputs\<close>

text \<open>
  Worlds used to run the services: the clock reads noon of 3 November 2026 (UTC); a
  quote of the US dollar with the sell rate 5.40.
\<close>

definition usd_quote :: cotacao where
  "usd_quote = \<lparr>cotacaoCompra = Some (binary64 (539 / 100)),
                cotacaoVenda = Some (binary64 (27 / 5)),
                dataHoraCotacao = ''2026-10-24 13:09:41.123''\<rparr>"

text \<open>The rate service has a quote for 24 October 2026 only, ten days before the clock.\<close>

definition quoted_ten_days_back :: world where
  "quoted_ten_days_back =
     \<lparr>charges_retrieve = (\<lambda>_. None), paymentIntents_retrieve = (\<lambda>_. None),
      fetch_ptax = (\<lambda>currency t. if t = 1792843200000 then JsonBody (Some [Some usd_quote])
                                  else JsonBody (Some [])),
      now_ms = 1793707200000, now_iso = ''2026-11-03T12:00:00.000Z''\<rparr>"

text \<open>
  The rate service has a quote for 5 November 2016 only, 3650 days before the clock.
\<close>

definition quoted_ten_years_back :: world where
  "quoted_ten_years_back =
     \<lparr>charges_retrieve = (\<lambda>_. None), paymentIntents_retrieve = (\<lambda>_. None),
      fetch_ptax = (\<lambda>currency t. if t = 1478347200000 then JsonBody (Some [Some usd_quote])
                                  else JsonBody (Some [])),
      now_ms = 1793707200000, now_iso = ''2026-11-03T12:00:00.000Z''\<rparr>"

text \<open>The rate service answers with a quote whose rates are null.\<close>

definition malformed_quote :: world where
  "malformed_quote =
     \<lparr>charges_retrieve = (\<lambda>_. None), paymentIntents_retrieve = (\<lambda>_. None),
      fetch_ptax = (\<lambda>currency t. JsonBody (Some [Some \<lparr>cotacaoCompra = None,
                                                          cotacaoVenda = None,
                                                          dataHoraCotacao = ''2026-11-03 13:09:41.123''\<rparr>])),
      now_ms = 1793707200000, now_iso = ''2026-11-03T12:00:00.000Z''\<rparr>"

text \<open>The rate service answers every date with an empty list of quotes.\<close>

definition never_quoted :: world where
  "never_quoted =
     \<lparr>charges_retrieve = (\<lambda>_. None), paymentIntents_retrieve = (\<lambda>_. None),
      fetch_ptax = (\<lambda>currency t. JsonBody (Some [])),
      now_ms = 1793707200000, now_iso = ''2026-11-03T12:00:00.000Z''\<rparr>"

text \<open>The rate service answers with a status that is not 2xx.\<close>

definition rates_down :: world where
  "rates_down =
     \<lparr>charges_retrieve = (\<lambda>_. None), paymentIntents_retrieve = (\<lambda>_. None),
      fetch_ptax = (\<lambda>currency t. NotOk),
      now_ms = 1793707200000, now_iso = ''2026-11-03T12:00:00.000Z''\<rparr>"

text \<open>The rate service has the quote for every date.\<close>

definition quoted_today :: world where
  "quoted_today =
     \<lparr>charges_retrieve = (\<lambda>_. None), paymentIntents_retrieve = (\<lambda>_. None),
      fetch_ptax = (\<lambda>currency t. JsonBody (Some [Some usd_quote])),
      now_ms = 1793707200000, now_iso = ''2026-11-03T12:00:00.000Z''\<rparr>"

text \<open>A charge of 55.00 US dollars settled as 297.00 reais, of which 12.00 are fees.\<close>

definition settled_charge :: charge where
  "settled_charge =
     \<lparr>charge_id = ''ch_1'', charge_amount = Fin 5500, charge_currency = ''usd'',
      charge_balance_transaction =
        Expanded \<lparr>bt_amount = Fin 29700, bt_fee = Fin 1200, bt_net = Fin 28500\<rparr>\<rparr>"

definition settled :: world where
  "settled =
     \<lparr>charges_retrieve = (\<lambda>i. if i = ''ch_1'' then Some settled_charge else None),
      paymentIntents_retrieve = (\<lambda>_. None),
      fetch_ptax = (\<lambda>currency t. JsonBody (Some [])),
      now_ms = 1793707200000, now_iso = ''2026-11-03T12:00:00.000Z''\<rparr>"

text \<open>
  An invoice in processing, and the environment of the webhook handler used to run it:
  a stand-in for the keyed digest, and two bodies, named rather than spelled out, that
  decode to an authorisation without a PDF address and to a status unknown to the
  lifecycle (a third body follows below).
\<close>

definition invoice_R1 :: nfse_row where
  "invoice_R1 =
     \<lparr>nfse_id = 1, userId = 7, taxInfoId = 3, fiscalNacionalId = None,
      fiscalNacionalReference = ''R1'', stripeSubscriptionId = Some ''sub_1'',
      stripeInvoiceId = Some ''in_1'', stripePaymentIntentId = None, stripeChargeId = None,
      transactionType = ''subscription'', nfseNumber = Some ''provisional-9'',
      status = ''processing'', serviceDescription = ''Plano Pro'', productName = Some ''Pro'',
      valueBrl = Fin 297, valueUsd = Some (Fin 55), row_originalAmount = Some (Fin 55),
      row_originalCurrency = Some ''USD'', currencyCode = None,
      row_exchangeRate = Some (binary64 (27 / 5)), issRate = binary64 (2 / 100),
      issValue = Fin 0, customerName = ''Ana Souza'', customerEmail = ''ana@example.com'',
      customerCountry = ''BR'', customerDocument = Some ''12345678909'',
      pdfUrl = Some ''https://files.example/old.pdf'', xmlUrl = None, errorMessage = None,
      errorDetails = None, issuedAt = None, cancelledAt = None, cancellationReason = None,
      createdAt = 1793700000000, updatedAt = 1793700000000\<rparr>"

definition invoice_R2 :: nfse_row where
  "invoice_R2 = invoice_R1\<lparr>nfse_id := 2, fiscalNacionalReference := ''R2''\<rparr>"

definition authorized_payload :: webhook_payload where
  "authorized_payload =
     \<lparr>wh_event = ''nfse.status'', wh_reference = ''R1'', wh_status = ''authorized'',
      wh_nfse_number = Some ''2026000042'', wh_pdf_url = None,
      wh_xml_url = Some ''https://files.example/42.xml'', wh_error_message = None,
      wh_timestamp = ''2026-11-03T12:00:05Z''\<rparr>"

definition unknown_status_payload :: webhook_payload where
  "unknown_status_payload =
     \<lparr>wh_event = ''nfse.status'', wh_reference = ''R1'', wh_status = ''on_hold'',
      wh_nfse_number = Some ''2026000042'', wh_pdf_url = None,
      wh_xml_url = None, wh_error_message = Some ''ignored'',
      wh_timestamp = ''2026-11-03T12:00:05Z''\<rparr>"

text \<open>A payload whose status has 51 characters.\<close>

definition long_status_payload :: webhook_payload where
  "long_status_payload =
     \<lparr>wh_event = ''nfse.status'', wh_reference = ''R1'',
      wh_status = ''xxxxxxxxxxxxxxxxxxxxxxxxxxxxxxxxxxxxxxxxxxxxxxxxxxx'',
      wh_nfse_number = None, wh_pdf_url = None, wh_xml_url = None, wh_error_message = None,
      wh_timestamp = ''2026-11-03T12:00:05Z''\<rparr>"

definition example_digest :: "string \<Rightarrow> string \<Rightarrow> string" where
  "example_digest key message = ''mac:'' @ key @ '':'' @ message"

definition example_env :: webhook_env where
  "example_env =
     \<lparr>FISCAL_WEBHOOK_SECRET = Some ''s3cret'',
      hmac_sha256_hex = example_digest,
      parse_webhook = (\<lambda>body. if body = ''body-authorized'' then Some authorized_payload
                               else if body = ''body-on-hold'' then Some unknown_status_payload
                               else if body = ''body-long-status'' then Some long_status_payload
                               else None),
      clock_first = 1793707205000, clock_second = 1793707205001, db_up = True\<rparr>"

text \<open>
  A persisted domestic profile without a tax document, the database that holds it, an
  issuer whose tax API accepts every request, one whose tax API rejects every request,
  and the request for a subscription payment of 100 reais.
\<close>

definition profile_without_document :: tax_info where
  "profile_without_document =
     \<lparr>ti_id = 3, ti_userId = 7, country = ''BR'', isBrazilian = True, cpfCnpj = None,
      nif = None, nifExemptionCode = None, fullName = ''Ana Souza'',
      address = Some ''Av. Paulista'', street_number = Some ''1000'', complement = None,
      neighborhood = Some ''Bela Vista'', city = Some ''Sao Paulo'',
      cityCode = Some ''3550308'', state = Some ''SP'', postalCode = Some ''01310-100'',
      inscricaoMunicipal = None, ti_createdAt = 1793700000000, ti_updatedAt = 1793700000000\<rparr>"

definition example_db :: fiscal_db where
  "example_db =
     \<lparr>userTaxInfo_rows = [profile_without_document], userTaxInfo_seq = 3,
      nfse_rows = [], nfse_seq = 0\<rparr>"

definition example_config :: FiscalNacionalConfig where
  "example_config =
     \<lparr>cfg_cnpj = ''12345678000199'', cfg_inscricaoMunicipal = ''123456'',
      cfg_codigoMunicipio = ''3550308'', cfg_itemListaServico = ''01.02'',
      cfg_codigoTributacaoMunicipio = ''0102'', cfg_codigoCnae = ''6201500'',
      cfg_aliquotaIss = Fin 2\<rparr>"

definition accepting_issuer :: issuer_env where
  "accepting_issuer =
     \<lparr>conversion_world = rates_down,
      fiscal_api = (\<lambda>request. ApiOk \<lparr>resp_reference = Some ''R9'',
                                       resp_status = Some ''processing'',
                                       resp_nfseNumber = None, resp_verificationCode = None,
                                       resp_pdfUrl = None, resp_xmlUrl = None\<rparr>),
      companyConfig = example_config, database_up = True\<rparr>"

definition rejecting_issuer :: issuer_env where
  "rejecting_issuer =
     accepting_issuer\<lparr>fiscal_api := (\<lambda>request. ApiNotOk (Some ''tomador invalido'')
                                                          ''Unprocessable Entity'')\<rparr>"

definition subscription_payment :: subscription_params where
  "subscription_payment =
     \<lparr>sp_userId = 7, sp_stripeSubscriptionId = ''sub_1'', sp_stripeInvoiceId = ''in_1'',
      sp_stripeChargeId = None, sp_stripePaymentIntentId = None, sp_amount = Fin 100,
      sp_currency = ''BRL'', sp_planName = ''Pro'', sp_userEmail = ''ana@example.com''\<rparr>"

definition credit_payment :: credit_params where
  "credit_payment =
     \<lparr>cp_userId = 8, cp_stripePaymentIntentId = ''pi_1'', cp_stripeChargeId = None,
      cp_amount = Fin 100, cp_currency = ''BRL'', cp_creditAmount = 500,
      cp_userEmail = ''rui@example.com''\<rparr>"

text \<open>
  An issuer whose rate service answers with the malformed quote, and the request for a
  subscription payment of 55 US dollars.
\<close>

definition misquoted_issuer :: issuer_env where
  "misquoted_issuer = accepting_issuer\<lparr>conversion_world := malformed_quote\<rparr>"

definition dollar_payment :: subscription_params where
  "dollar_payment = subscription_payment\<lparr>sp_amount := Fin 55, sp_currency := ''USD''\<rparr>"

text \<open>The submission of a domestic profile without a tax document.\<close>

definition submission_without_document :: tax_info_data where
  "submission_without_document =
     \<lparr>d_country = ''BR'', d_isBrazilian = True, d_cpfCnpj = None, d_nif = None,
      d_fullName = ''Ana Souza'', d_address = Some ''Av. Paulista'', d_number = Some ''1000'',
      d_complement = None, d_neighborhood = Some ''Bela Vista'', d_city = Some ''Sao Paulo'',
      d_cityCode = Some ''3550308'', d_state = Some ''SP'', d_postalCode = Some ''01310-100'',
      d_internationalAddress = None\<rparr>"


section \<open>Evaluation of numbers and strings\<close>

lemma floor_rat_numeral [simp]: "\<lfloor>numeral a / numeral b :: rat\<rfloor> = numeral a div numeral b"
  using floor_divide_of_int_eq [of "numeral a" "numeral b", where ?'a = rat] by simp

lemma ceiling_rat_numeral [simp]:
  "\<lceil>numeral a / numeral b :: rat\<rceil> = - ((- numeral a) div numeral b)"
  using ceiling_divide_eq_div [of "numeral a" "numeral b", where ?'a = rat] by simp

lemma bit_length_numeral [simp]:
  "bit_length 0 = 0" "bit_length (Suc 0) = Suc 0"
  "bit_length (numeral k) = Suc (bit_length (numeral k div 2))"
  by (simp_all add: bit_length.simps)

lemma decimal_numeral [simp]:
  "decimal 0 = ''0''" "decimal (Suc 0) = ''1''"
  "decimal (numeral k) =
     (if (numeral k :: nat) < 10 then [digit_char (numeral k)]
      else decimal (numeral k div 10) @ [digit_char (numeral k mod 10)])"
  by (simp_all add: decimal.simps digit_char_def)

lemmas binary64_eval = binary64_def ilog2_def pow2_def round_half_even_def Let_def

lemmas toFixed_eval = fixed_digits_def digit_char_def Let_def

lemmas varchar_eval = varchar_def varchar_null_def accepts_def accepts_null_def stored_def
  stored_null_def accepts_text_def without_nul_def char_count_def is_continuation_def Let_def

lemma binary64_27_5: "binary64 (27 / 5) = Fin (3039929748475085 / 562949953421312)"
  by (simp add: binary64_eval)

lemma upper_char_idem: "upper_char (upper_char c) = upper_char c"
  by (simp add: upper_char_def)

lemma toUpperCase_idem: "toUpperCase (toUpperCase s) = toUpperCase s"
  by (simp add: toUpperCase_def upper_char_idem)

section \<open>Values accepted by a column\<close>

lemma varchar_fits: "fits n s \<Longrightarrow> varchar n s = Some s"
  by (simp add: varchar_def fits_def)

lemma accepts_fits: "fits n s \<Longrightarrow> accepts n s \<and> stored n s = s"
  by (simp add: accepts_def stored_def varchar_fits)

lemma accepts_null_fits: "fits_null n x \<Longrightarrow> accepts_null n x \<and> stored_null n x = x"
  by (cases x)
     (simp_all add: fits_null_def accepts_null_def stored_null_def varchar_null_def varchar_fits)

lemma stored_null_Some: "stored_null n (Some s) = Some (stored n s)"
  by (cases "varchar n s") (simp_all add: stored_null_def stored_def varchar_null_def)

lemma stored_null_None: "stored_null n None = None"
  by (simp add: stored_null_def varchar_null_def)

lemma take_chars_nonempty: "s \<noteq> [] \<Longrightarrow> 0 < n \<Longrightarrow> take_chars n s \<noteq> []"
  by (cases s; cases n) auto

lemma stored_nonempty: "s \<noteq> [] \<Longrightarrow> 0 < n \<Longrightarrow> stored n s \<noteq> []"
  by (auto simp: stored_def varchar_def Let_def take_chars_nonempty split: option.splits if_splits)

section \<open>Currency conversion: properties\<close>

subsection \<open>The fallback table\<close>

lemma FALLBACK_RATES_truthy: "FALLBACK_RATES c = Some x \<Longrightarrow> truthy_number x"
  by (auto simp: FALLBACK_RATES_def binary64_eval split: if_splits)

lemma getFallbackRate_upper:
  "getFallbackRate (toUpperCase c) =
     (case FALLBACK_RATES (toUpperCase c) of Some x \<Rightarrow> x | None \<Rightarrow> Fin (11 / 2))"
  by (auto simp: getFallbackRate_def toUpperCase_idem FALLBACK_RATES_truthy split: option.splits)

lemma getPTAXRate_rates_down: "getPTAXRate rates_down c None = None"
  by (subst getPTAXRate.simps) (simp add: rates_down_def)

subsection \<open>Payments in reais\<close>

text \<open>
  Claim C4. For every amount, \<open>convertToBRL\<close> with a currency code that is BRL in any
  letter case returns the identity conversion: the amount itself, the exchange rate 1,
  the source \<open>stripe_balance\<close>, and no fee (neither fee field is set). The result is the
  same in every world with the same clock: neither the payment processor nor the rate
  service nor the fallback table takes part in it.
\<close>

theorem convertToBRL_BRL_identity:
  assumes "toUpperCase currency = ''BRL''"
  shows "convertToBRL w amount currency chargeId paymentIntentId =
           Inr \<lparr>amountBrl = amount, originalAmount = amount, originalCurrency = ''BRL'',
                exchangeRate = Fin 1, source = stripe_balance, rateDate = now_iso w,
                auditDescription = brl_audit_text, stripeFeesBrl = None, netAmountBrl = None\<rparr>"
  using assms by (simp add: convertToBRL_def)

text \<open>
  An instance: 19.99 in \<open>bRl\<close>, with both processor references supplied, in the world
  whose rate service has no quote on any date.
\<close>

theorem convertToBRL_BRL_identity_witness:
  "toUpperCase ''bRl'' = ''BRL'' \<and>
   convertToBRL never_quoted (Fin (1999 / 100)) ''bRl'' (Some ''ch_1'') (Some ''pi_1'') =
     Inr \<lparr>amountBrl = Fin (1999 / 100), originalAmount = Fin (1999 / 100),
          originalCurrency = ''BRL'', exchangeRate = Fin 1, source = stripe_balance,
          rateDate = now_iso never_quoted, auditDescription = brl_audit_text,
          stripeFeesBrl = None, netAmountBrl = None\<rparr>"
  using convertToBRL_BRL_identity
          [of "''bRl''" never_quoted "Fin (1999 / 100)" "Some ''ch_1''" "Some ''pi_1''"]
  by (simp add: toUpperCase_def upper_char_def)

subsection \<open>The fallback rate\<close>

text \<open>
  Claim C5, as amended. For every currency that is not BRL, when the settlement lookup
  gives nothing for each processor reference supplied and the official rate lookup
  \<open>getPTAXRate\<close> returns null, \<open>convertToBRL\<close> returns a result and does not throw, its
  source is \<open>fallback\<close>, and its exchange rate is the entry of the currency in the
  fallback table when the table has one, and 5.5 otherwise. Nothing is said of a rate
  that is unavailable while the lookup does not return null.
\<close>

theorem convertToBRL_fallback:
  assumes "toUpperCase currency \<noteq> ''BRL''"
    and "\<not> truthy chargeId \<or> getStripeBalanceInfo w (the chargeId) = None"
    and "\<not> truthy paymentIntentId
         \<or> getStripeBalanceInfoFromPaymentIntent w (the paymentIntentId) = None"
    and "getPTAXRate w (toUpperCase currency) None = None"
  shows "\<exists>r. convertToBRL w amount currency chargeId paymentIntentId = Inr r
             \<and> source r = fallback
             \<and> exchangeRate r = (case FALLBACK_RATES (toUpperCase currency) of
                                   Some x \<Rightarrow> x | None \<Rightarrow> Fin (11 / 2))"
  using assms by (auto simp: convertToBRL_def Let_def getFallbackRate_upper)

text \<open>An instance: 100 euros, with an empty payment-intent reference: the rate is 6.\<close>

theorem convertToBRL_fallback_witness:
  "\<exists>r. convertToBRL rates_down (Fin 100) ''eur'' None (Some []) = Inr r
        \<and> source r = fallback \<and> exchangeRate r = Fin 6"
  using convertToBRL_fallback [of "''eur''" None rates_down "Some []" "Fin 100"]
  by (simp add: getPTAXRate_rates_down)
     (simp add: toUpperCase_def upper_char_def FALLBACK_RATES_def)

text \<open>
  The claim as stated takes the rate from the table for every currency. The Mexican peso
  has no entry, and its conversion still returns, with the rate 5.5.
\<close>

theorem convertToBRL_fallback_default_counterexample:
  "toUpperCase ''MXN'' \<noteq> ''BRL''
   \<and> getPTAXRate rates_down (toUpperCase ''MXN'') None = None
   \<and> map_sum id source (convertToBRL rates_down (Fin 100) ''MXN'' None None) = Inr fallback
   \<and> map_sum id exchangeRate (convertToBRL rates_down (Fin 100) ''MXN'' None None)
       = Inr (Fin (11 / 2))
   \<and> FALLBACK_RATES (toUpperCase ''MXN'') = None"
proof -
  have u: "toUpperCase ''MXN'' = ''MXN''"
    by (simp add: toUpperCase_def upper_char_def)
  have f: "FALLBACK_RATES ''MXN'' = None"
    by (simp add: FALLBACK_RATES_def)
  have g: "getFallbackRate ''MXN'' = Fin (11 / 2)"
    using getFallbackRate_upper [of "''MXN''"] by (simp add: u f)
  show ?thesis
    by (simp add: convertToBRL_def Let_def u f g getPTAXRate_rates_down)
qed

subsection \<open>The audit text\<close>

text \<open>
  Claim C7, as amended. Every result returned by \<open>convertToBRL\<close> for a currency other
  than BRL carries an audit string of the form
  \<open>Valor original: <symbol><amount> - <source label>: R$ <rate to 4 decimals>\<close>,
  followed by \<open> - Taxas operacionais: R$ <fees>\<close> when fees are present and positive;
  the identity result for BRL carries the fixed sentence
  \<open>Pagamento em BRL - sem conversao necessaria\<close> (with its accents) instead.
\<close>

theorem convertToBRL_audit_text:
  assumes "convertToBRL w amount currency chargeId paymentIntentId = Inr r"
  shows "auditDescription r =
           (if toUpperCase currency = ''BRL'' then brl_audit_text else audit_form r)"
  using assms
  by (auto simp: convertToBRL_def Let_def from_stripe_def buildAuditDescription_def
                 audit_form_def fees_shown_def
           split: if_splits option.splits)

lemma getStripeBalanceInfo_settled:
  "getStripeBalanceInfo settled ''ch_1'' =
     Some \<lparr>sb_grossAmountBrl = Fin 297, sb_feesBrl = Fin 12, sb_netAmountBrl = Fin 285,
           sb_exchangeRate = binary64 (27 / 5), sb_originalAmount = Fin 5500,
           sb_originalCurrency = ''USD''\<rparr>"
  by (simp add: getStripeBalanceInfo_def settled_def settled_charge_def Let_def
                toUpperCase_def upper_char_def)
     (simp add: binary64_eval)

text \<open>An instance: 55.00 US dollars, settled by the processor with 12.00 reais of fees.\<close>

theorem convertToBRL_audit_text_witness:
  "map_sum id auditDescription (convertToBRL settled (Fin 55) ''usd'' (Some ''ch_1'') None) =
     Inr (''Valor original: $55.00 - Taxa de Convers'' @ [CHR 0xC3, CHR 0xA3]
          @ ''o Stripe: R$ 5.4000 - Taxas operacionais: R$ 12.00'')"
proof -
  define r where
    "r = from_stripe (Fin 55) ''USD'' ''2026-11-03'' (the (getStripeBalanceInfo settled ''ch_1''))"
  have u: "toUpperCase ''usd'' = ''USD''"
    by (simp add: toUpperCase_def upper_char_def)
  have c: "convertToBRL settled (Fin 55) ''usd'' (Some ''ch_1'') None = Inr r"
    unfolding r_def
    by (simp add: convertToBRL_def Let_def u getStripeBalanceInfo_settled) (simp add: settled_def)
  have "auditDescription r = audit_form r"
    using convertToBRL_audit_text [OF c] by (simp add: u)
  moreover have "audit_form r =
      ''Valor original: $55.00 - Taxa de Convers'' @ [CHR 0xC3, CHR 0xA3]
      @ ''o Stripe: R$ 5.4000 - Taxas operacionais: R$ 12.00''"
    unfolding r_def
    by (simp add: audit_form_def from_stripe_def getStripeBalanceInfo_settled fees_shown_def
                  currency_symbol_def CURRENCIES_def binary64_27_5)
       (simp add: toFixed_eval)
  ultimately show ?thesis
    by (simp add: c)
qed

text \<open>
  The claim as stated includes the BRL identity result, whose audit text is the fixed
  sentence and does not begin with \<open>Valor original: \<close>.
\<close>

theorem convertToBRL_audit_text_counterexample:
  "map_sum id auditDescription (convertToBRL rates_down (Fin 100) ''BRL'' None None)
     = Inr brl_audit_text
   \<and> take 16 brl_audit_text \<noteq> ''Valor original: ''"
  by (simp add: convertToBRL_def toUpperCase_def upper_char_def) (simp add: brl_audit_text_def)

subsection \<open>The official rate\<close>

text \<open>
  Claim C8. 55.00 US dollars, with no charge and no payment-intent reference, when the
  rate service answers the request for the current date with quotes whose last one has
  the sell rate 5.40 (the binary64 value nearest to it): the result has the source
  \<open>ptax\<close> and the amount in reais is 297 exactly, the binary64 product of 55 and the
  sell rate.
\<close>

theorem convertToBRL_USD_official_rate:
  assumes "\<not> truthy chargeId" and "\<not> truthy paymentIntentId"
    and "fetch_ptax w ''USD'' (now_ms w) = JsonBody (Some qs)" and "qs \<noteq> []"
    and "last qs = Some q" and "cotacaoVenda q = Some (binary64 (27 / 5))"
  shows "map_sum id amountBrl (convertToBRL w (Fin 55) ''USD'' chargeId paymentIntentId)
           = Inr (Fin 297)
       \<and> map_sum id source (convertToBRL w (Fin 55) ''USD'' chargeId paymentIntentId)
           = Inr ptax"
proof -
  have u: "toUpperCase ''USD'' = ''USD''"
    by (simp add: toUpperCase_def upper_char_def)
  obtain q' qs' where qs: "qs = q' # qs'"
    using assms(4) by (cases qs) auto
  have g: "getPTAXRate w ''USD'' None =
            Some \<lparr>buyRate = cotacaoCompra q, sellRate = Some (binary64 (27 / 5)),
                  rate_date = dataHoraCotacao q\<rparr>"
    using assms(3,5,6) by (subst getPTAXRate.simps) (simp add: qs Let_def)
  have m: "fmul (Fin 55) (binary64 (27 / 5)) = Fin 297"
    by (simp add: binary64_27_5) (simp add: binary64_eval)
  show ?thesis
    using assms(1,2) by (simp add: convertToBRL_def Let_def u g m)
qed

theorem convertToBRL_USD_official_rate_witness:
  "map_sum id amountBrl (convertToBRL quoted_today (Fin 55) ''USD'' None None) = Inr (Fin 297)
   \<and> map_sum id source (convertToBRL quoted_today (Fin 55) ''USD'' None None) = Inr ptax"
  using convertToBRL_USD_official_rate [of None None quoted_today "[Some usd_quote]" usd_quote]
  by (simp add: quoted_today_def usd_quote_def)

subsection \<open>The bound of the rate lookup\<close>

text \<open>
  The test of seven days compares a date with its own previous day: it holds whenever
  the previous day is a date at all.
\<close>

lemma within_bound_previous_day:
  "\<bar>t - 1000 * 60 * 60 * 24\<bar> \<le> 8640000000000000 \<Longrightarrow> within_bound t (previous_day t)"
  by (simp add: within_bound_def previous_day_def)

lemma getPTAXRate_retry:
  assumes "fetch_ptax w c t = JsonBody (Some [])"
    and "\<bar>t - 1000 * 60 * 60 * 24\<bar> \<le> 8640000000000000"
  shows "getPTAXRate w c (Some t) = getPTAXRate w c (Some (t - 1000 * 60 * 60 * 24))"
  using assms within_bound_previous_day [OF assms(2)]
  by (subst getPTAXRate.simps) (simp add: previous_day_def)

text \<open>
  A quote any number of days back is found, when the days in between have none: the
  number of retries has no bound but the range of dates.
\<close>

lemma getPTAXRate_days_back:
  assumes "\<forall>i < n. fetch_ptax w c (t - int i * (1000 * 60 * 60 * 24)) = JsonBody (Some [])"
    and "fetch_ptax w c (t - int n * (1000 * 60 * 60 * 24)) = JsonBody (Some [Some q])"
    and "\<bar>t\<bar> \<le> 8640000000000000"
    and "\<bar>t - int n * (1000 * 60 * 60 * 24)\<bar> \<le> 8640000000000000"
  shows "getPTAXRate w c (Some t) =
           Some \<lparr>buyRate = cotacaoCompra q, sellRate = cotacaoVenda q,
                 rate_date = dataHoraCotacao q\<rparr>"
  using assms
proof (induction n arbitrary: t)
  case 0
  then show ?case
    by (subst getPTAXRate.simps) simp
next
  case (Suc n)
  from Suc.prems(1) have e: "fetch_ptax w c t = JsonBody (Some [])"
    by (metis mult_zero_left diff_zero of_nat_0 zero_less_Suc)
  have b: "\<bar>t - 1000 * 60 * 60 * 24\<bar> \<le> 8640000000000000"
    using Suc.prems(3,4) by simp
  have "getPTAXRate w c (Some (t - 1000 * 60 * 60 * 24)) =
          Some \<lparr>buyRate = cotacaoCompra q, sellRate = cotacaoVenda q,
                rate_date = dataHoraCotacao q\<rparr>"
  proof (rule Suc.IH)
    show "\<forall>i < n. fetch_ptax w c (t - 1000 * 60 * 60 * 24 - int i * (1000 * 60 * 60 * 24))
                    = JsonBody (Some [])"
    proof (intro allI impI)
      fix i assume "i < n"
      then have "Suc i < Suc n"
        by simp
      with Suc.prems(1)
      have "fetch_ptax w c (t - int (Suc i) * (1000 * 60 * 60 * 24)) = JsonBody (Some [])"
        by blast
      moreover have "t - 1000 * 60 * 60 * 24 - int i * (1000 * 60 * 60 * 24)
                     = t - int (Suc i) * (1000 * 60 * 60 * 24)"
        by (simp add: algebra_simps)
      ultimately show "fetch_ptax w c (t - 1000 * 60 * 60 * 24 - int i * (1000 * 60 * 60 * 24))
                   = JsonBody (Some [])"
        by (simp only:)
    qed
    show "fetch_ptax w c (t - 1000 * 60 * 60 * 24 - int n * (1000 * 60 * 60 * 24))
            = JsonBody (Some [Some q])"
      using Suc.prems(2) by (simp add: algebra_simps)
    show "\<bar>t - 1000 * 60 * 60 * 24\<bar> \<le> 8640000000000000"
      by (rule b)
    show "\<bar>t - 1000 * 60 * 60 * 24 - int n * (1000 * 60 * 60 * 24)\<bar> \<le> 8640000000000000"
      using Suc.prems(4) by (simp add: algebra_simps)
  qed
  with getPTAXRate_retry [OF e b] show ?case
    by simp
qed

text \<open>
  Claim C1, on the code. The claim bounds the retries to 7 days back and has the lookup
  return null beyond. On the code, with a quote ten days before the requested date only,
  the lookup returns that quote; and so it does with a quote 3650 days before only.
\<close>

theorem getPTAXRate_unbounded:
  "getPTAXRate quoted_ten_days_back ''USD'' None =
     Some \<lparr>buyRate = Some (binary64 (539 / 100)), sellRate = Some (binary64 (27 / 5)),
           rate_date = ''2026-10-24 13:09:41.123''\<rparr>
   \<and> now_ms quoted_ten_days_back - 1792843200000 = 10 * (1000 * 60 * 60 * 24)
   \<and> getPTAXRate quoted_ten_years_back ''USD'' None =
     Some \<lparr>buyRate = Some (binary64 (539 / 100)), sellRate = Some (binary64 (27 / 5)),
           rate_date = ''2026-10-24 13:09:41.123''\<rparr>
   \<and> now_ms quoted_ten_years_back - 1478347200000 = 3650 * (1000 * 60 * 60 * 24)"
proof -
  have n: "getPTAXRate w c None = getPTAXRate w c (Some (now_ms w))" for w c
    by (subst getPTAXRate.simps, subst (2) getPTAXRate.simps) simp
  have "getPTAXRate quoted_ten_days_back ''USD'' (Some 1793707200000) =
          Some \<lparr>buyRate = cotacaoCompra usd_quote, sellRate = cotacaoVenda usd_quote,
                rate_date = dataHoraCotacao usd_quote\<rparr>"
    by (rule getPTAXRate_days_back [where n = 10]) (auto simp: quoted_ten_days_back_def)
  moreover have "getPTAXRate quoted_ten_years_back ''USD'' (Some 1793707200000) =
          Some \<lparr>buyRate = cotacaoCompra usd_quote, sellRate = cotacaoVenda usd_quote,
                rate_date = dataHoraCotacao usd_quote\<rparr>"
    by (rule getPTAXRate_days_back [where n = 3650]) (auto simp: quoted_ten_years_back_def)
  ultimately show ?thesis
    by (simp add: n) (simp add: quoted_ten_days_back_def quoted_ten_years_back_def usd_quote_def)
qed

section \<open>Webhook reconciliation: properties\<close>

subsection \<open>Authentication\<close>

text \<open>
  Claim C2. A webhook request without the signature header, or received while no secret
  is configured, or whose signature is not the HMAC-SHA256 of the raw body under the
  secret, is answered 401 and leaves every invoice row as it was.
\<close>

theorem webhook_rejects_unauthenticated:
  assumes "signature = None \<or> FISCAL_WEBHOOK_SECRET env = None
           \<or> (\<exists>k. FISCAL_WEBHOOK_SECRET env = Some k
                    \<and> signature \<noteq> Some (hmac_sha256_hex env k body))"
  shows "webhook env signature body rows = (401, rows)"
  using assms by (cases signature) (auto simp: webhook_def timingSafeEqual_def Let_def)

text \<open>
  One instance of each case: no header, no secret, and a signature computed over another
  body.
\<close>

theorem webhook_rejects_unauthenticated_witness:
  "webhook example_env None ''body-authorized'' [invoice_R1] = (401, [invoice_R1])
   \<and> webhook (example_env\<lparr>FISCAL_WEBHOOK_SECRET := None\<rparr>)
        (Some (example_digest ''s3cret'' ''body-authorized'')) ''body-authorized'' [invoice_R1]
       = (401, [invoice_R1])
   \<and> webhook example_env (Some (example_digest ''s3cret'' ''body-authorized''))
        ''body-on-hold'' [invoice_R1] = (401, [invoice_R1])"
  using webhook_rejects_unauthenticated [of None example_env "''body-authorized''" "[invoice_R1]"]
    webhook_rejects_unauthenticated
      [of "Some (example_digest ''s3cret'' ''body-authorized'')"
          "example_env\<lparr>FISCAL_WEBHOOK_SECRET := None\<rparr>" "''body-authorized''" "[invoice_R1]"]
    webhook_rejects_unauthenticated
      [of "Some (example_digest ''s3cret'' ''body-authorized'')" example_env
          "''body-on-hold''" "[invoice_R1]"]
  by (simp add: example_env_def example_digest_def)

subsection \<open>The update applied\<close>

lemma webhook_authenticated:
  assumes "FISCAL_WEBHOOK_SECRET env = Some k" and "k \<noteq> []"
    and "signature = Some (hmac_sha256_hex env k body)" and "hmac_sha256_hex env k body \<noteq> []"
    and "parse_webhook env body = Some data"
  shows "webhook env signature body rows =
           (case store_update (webhook_updateData env data) of
              None \<Rightarrow> (500, rows)
            | Some updateData \<Rightarrow>
                if db_up env \<and> without_nul (wh_reference data)
                then (200, update_nfse_where_reference updateData (wh_reference data) rows)
                else (500, rows))"
  using assms by (simp add: webhook_def timingSafeEqual_def Let_def)

text \<open>The method of the service builds the same update as the handler.\<close>

lemma updateNFSeFromWebhook_agrees:
  "updateNFSeFromWebhook env
     \<lparr>up_reference = wh_reference data, up_status = wh_status data,
      up_nfseNumber = wh_nfse_number data, up_pdfUrl = wh_pdf_url data,
      up_xmlUrl = wh_xml_url data, up_errorMessage = wh_error_message data\<rparr> rows =
   (case store_update (webhook_updateData env data) of
      None \<Rightarrow> None
    | Some updateData \<Rightarrow>
        if db_up env \<and> without_nul (wh_reference data)
        then Some (update_nfse_where_reference updateData (wh_reference data) rows)
        else None)"
  unfolding updateNFSeFromWebhook_def webhook_updateData_def Let_def update_params.simps
  by (rule refl)

text \<open>An update whose values fit their columns is stored as it is.\<close>

lemma store_update_fits:
  assumes "fits 50 (set_status u)" and "fits_null 50 (set_nfseNumber u)"
    and "fits_null 500 (set_pdfUrl u)" and "fits_null 500 (set_xmlUrl u)"
    and "accepts_text (set_errorMessage u)"
  shows "store_update u = Some u"
  using accepts_fits [OF assms(1)] accepts_null_fits [OF assms(2)]
    accepts_null_fits [OF assms(3)] accepts_null_fits [OF assms(4)] assms(5)
  by (simp add: store_update_def)

lemma fits_if_truthy: "fits_null n x \<Longrightarrow> fits_null n (if_truthy x)"
  by (simp add: if_truthy_def fits_null_def)

lemma webhook_updateData_fits:
  assumes "fits 50 (wh_status data)"
    and "wh_status data = ''authorized'' \<longrightarrow>
           fits_null 50 (wh_nfse_number data) \<and> fits_null 500 (wh_pdf_url data)
           \<and> fits_null 500 (wh_xml_url data)"
    and "wh_status data = ''error'' \<longrightarrow> accepts_text (wh_error_message data)"
  shows "store_update (webhook_updateData env data) = Some (webhook_updateData env data)"
proof (rule store_update_fits)
  show "fits 50 (set_status (webhook_updateData env data))"
    using assms(1) by (simp add: webhook_updateData_def Let_def)
  show "fits_null 50 (set_nfseNumber (webhook_updateData env data))"
    using assms(2)
    by (simp add: webhook_updateData_def Let_def fits_if_truthy) (simp add: fits_null_def)
  show "fits_null 500 (set_pdfUrl (webhook_updateData env data))"
    using assms(2)
    by (simp add: webhook_updateData_def Let_def fits_if_truthy) (simp add: fits_null_def)
  show "fits_null 500 (set_xmlUrl (webhook_updateData env data))"
    using assms(2)
    by (simp add: webhook_updateData_def Let_def fits_if_truthy) (simp add: fits_null_def)
  show "accepts_text (set_errorMessage (webhook_updateData env data))"
    using assms(3)
    by (cases "wh_error_message data")
       (simp_all add: webhook_updateData_def Let_def accepts_text_def without_nul_def)
qed

lemma authorized_fits: "fits 50 ''authorized''" "stored 50 ''authorized'' = ''authorized''"
  by (simp_all add: fits_def varchar_eval)

lemma apply_update_authorized:
  assumes "wh_status data = ''authorized''"
  shows "apply_update (webhook_updateData env data) r =
          r\<lparr>status := ''authorized'', updatedAt := clock_first env,
            issuedAt := Some (clock_second env),
            nfseNumber := (if truthy (wh_nfse_number data)
                           then wh_nfse_number data else nfseNumber r),
            pdfUrl := (if truthy (wh_pdf_url data) then wh_pdf_url data else pdfUrl r),
            xmlUrl := (if truthy (wh_xml_url data) then wh_xml_url data else xmlUrl r)\<rparr>"
  using assms
  by (cases "wh_nfse_number data"; cases "wh_pdf_url data"; cases "wh_xml_url data")
     (simp_all add: apply_update_def webhook_updateData_def if_truthy_def Let_def)

text \<open>The update of an authorisation as the columns hold it, whatever its values.\<close>

lemma apply_stored_authorized:
  assumes "wh_status data = ''authorized''"
    and "store_update (webhook_updateData env data) = Some u"
  shows "apply_update u r =
          r\<lparr>status := ''authorized'', updatedAt := clock_first env,
            issuedAt := Some (clock_second env),
            nfseNumber := (if truthy (wh_nfse_number data)
                           then Some (stored 50 (the (wh_nfse_number data))) else nfseNumber r),
            pdfUrl := (if truthy (wh_pdf_url data)
                       then Some (stored 500 (the (wh_pdf_url data))) else pdfUrl r),
            xmlUrl := (if truthy (wh_xml_url data)
                       then Some (stored 500 (the (wh_xml_url data))) else xmlUrl r)\<rparr>"
proof -
  have u: "u = (webhook_updateData env data)
                 \<lparr>set_status := stored 50 (set_status (webhook_updateData env data)),
                  set_nfseNumber := stored_null 50 (set_nfseNumber (webhook_updateData env data)),
                  set_pdfUrl := stored_null 500 (set_pdfUrl (webhook_updateData env data)),
                  set_xmlUrl := stored_null 500 (set_xmlUrl (webhook_updateData env data))\<rparr>"
    using assms(2) by (simp add: store_update_def split: if_splits)
  show ?thesis
    unfolding u using assms(1)
    by (cases "wh_nfse_number data"; cases "wh_pdf_url data"; cases "wh_xml_url data")
       (simp_all add: apply_update_def webhook_updateData_def if_truthy_def Let_def
                      stored_null_Some stored_null_None authorized_fits)
qed



text \<open>
  Claim C9. An authenticated webhook with the status \<open>authorized\<close> either is refused by
  the database (500, every row as it was) or is answered 200 and rewrites the rows with
  its reference, and no other row: the status, \<open>updatedAt\<close> and \<open>issuedAt\<close> take the
  status and the current time, the invoice number and the two document addresses take
  the value of the payload, as their columns hold it, when the payload has one and keep
  the stored value when it has none, and every other field of the row, the customer
  snapshot and the monetary fields among them, keeps its value. When the database
  executes the statement and takes the values of the payload as they are (at most 50
  characters for the invoice number and 500 for each address, and the character U+0000
  neither in them nor in the reference), the answer is 200 and the values are stored as
  they are; the method \<open>updateNFSeFromWebhook\<close> of the service then gives the same
  table.
\<close>

theorem webhook_authorized_update:
  assumes "FISCAL_WEBHOOK_SECRET env = Some k" and "k \<noteq> []"
    and "signature = Some (hmac_sha256_hex env k body)" and "hmac_sha256_hex env k body \<noteq> []"
    and "parse_webhook env body = Some data"
    and "wh_status data = ''authorized''"
  shows "webhook env signature body rows =
           (if db_up env \<and> without_nul (wh_reference data)
               \<and> store_update (webhook_updateData env data) \<noteq> None
            then (200, map (\<lambda>r. if fiscalNacionalReference r = wh_reference data
                               then r\<lparr>status := ''authorized'',
                                      updatedAt := clock_first env,
                                      issuedAt := Some (clock_second env),
                                      nfseNumber :=
                                        (if truthy (wh_nfse_number data)
                                         then Some (stored 50 (the (wh_nfse_number data)))
                                         else nfseNumber r),
                                      pdfUrl :=
                                        (if truthy (wh_pdf_url data)
                                         then Some (stored 500 (the (wh_pdf_url data)))
                                         else pdfUrl r),
                                      xmlUrl :=
                                        (if truthy (wh_xml_url data)
                                         then Some (stored 500 (the (wh_xml_url data)))
                                         else xmlUrl r)\<rparr>
                               else r) rows)
            else (500, rows))
       \<and> (db_up env \<and> without_nul (wh_reference data) \<and> fits_null 50 (wh_nfse_number data)
             \<and> fits_null 500 (wh_pdf_url data) \<and> fits_null 500 (wh_xml_url data) \<longrightarrow>
           webhook env signature body rows =
             (200, map (\<lambda>r. if fiscalNacionalReference r = wh_reference data
                            then r\<lparr>status := ''authorized'',
                                   updatedAt := clock_first env,
                                   issuedAt := Some (clock_second env),
                                   nfseNumber := (if truthy (wh_nfse_number data)
                                                  then wh_nfse_number data else nfseNumber r),
                                   pdfUrl := (if truthy (wh_pdf_url data)
                                              then wh_pdf_url data else pdfUrl r),
                                   xmlUrl := (if truthy (wh_xml_url data)
                                              then wh_xml_url data else xmlUrl r)\<rparr>
                            else r) rows)
           \<and> updateNFSeFromWebhook env
               \<lparr>up_reference = wh_reference data, up_status = wh_status data,
                up_nfseNumber = wh_nfse_number data, up_pdfUrl = wh_pdf_url data,
                up_xmlUrl = wh_xml_url data, up_errorMessage = wh_error_message data\<rparr> rows
             = Some (snd (webhook env signature body rows)))"
proof (intro conjI impI)
  show "webhook env signature body rows =
           (if db_up env \<and> without_nul (wh_reference data)
               \<and> store_update (webhook_updateData env data) \<noteq> None
            then (200, map (\<lambda>r. if fiscalNacionalReference r = wh_reference data
                               then r\<lparr>status := ''authorized'',
                                      updatedAt := clock_first env,
                                      issuedAt := Some (clock_second env),
                                      nfseNumber :=
                                        (if truthy (wh_nfse_number data)
                                         then Some (stored 50 (the (wh_nfse_number data)))
                                         else nfseNumber r),
                                      pdfUrl :=
                                        (if truthy (wh_pdf_url data)
                                         then Some (stored 500 (the (wh_pdf_url data)))
                                         else pdfUrl r),
                                      xmlUrl :=
                                        (if truthy (wh_xml_url data)
                                         then Some (stored 500 (the (wh_xml_url data)))
                                         else xmlUrl r)\<rparr>
                               else r) rows)
            else (500, rows))"
  proof (cases "store_update (webhook_updateData env data)")
    case None
    then show ?thesis
      by (simp add: webhook_authenticated [OF assms(1-5)])
  next
    case (Some u)
    then show ?thesis
      by (simp add: webhook_authenticated [OF assms(1-5)] update_nfse_where_reference_def
                    apply_stored_authorized [OF assms(6) Some])
  qed
next
  assume f: "db_up env \<and> without_nul (wh_reference data) \<and> fits_null 50 (wh_nfse_number data)
             \<and> fits_null 500 (wh_pdf_url data) \<and> fits_null 500 (wh_xml_url data)"
  have s: "store_update (webhook_updateData env data) = Some (webhook_updateData env data)"
    using f assms(6) by (intro webhook_updateData_fits) (simp_all add: authorized_fits)
  show w: "webhook env signature body rows =
             (200, map (\<lambda>r. if fiscalNacionalReference r = wh_reference data
                            then r\<lparr>status := ''authorized'',
                                   updatedAt := clock_first env,
                                   issuedAt := Some (clock_second env),
                                   nfseNumber := (if truthy (wh_nfse_number data)
                                                  then wh_nfse_number data else nfseNumber r),
                                   pdfUrl := (if truthy (wh_pdf_url data)
                                              then wh_pdf_url data else pdfUrl r),
                                   xmlUrl := (if truthy (wh_xml_url data)
                                              then wh_xml_url data else xmlUrl r)\<rparr>
                            else r) rows)"
    using f
    by (simp add: webhook_authenticated [OF assms(1-5)] s update_nfse_where_reference_def
                  apply_update_authorized [OF assms(6)])
  show "updateNFSeFromWebhook env
               \<lparr>up_reference = wh_reference data, up_status = wh_status data,
                up_nfseNumber = wh_nfse_number data, up_pdfUrl = wh_pdf_url data,
                up_xmlUrl = wh_xml_url data, up_errorMessage = wh_error_message data\<rparr> rows
             = Some (snd (webhook env signature body rows))"
    using f
    by (simp add: webhook_authenticated [OF assms(1-5)] updateNFSeFromWebhook_agrees s)
qed

text \<open>
  An instance: the payload has an invoice number and an XML address and no PDF address;
  the stored PDF address stays, and the row of another reference is untouched.
\<close>

theorem webhook_authorized_update_witness:
  "webhook example_env (Some (example_digest ''s3cret'' ''body-authorized'')) ''body-authorized''
     [invoice_R1, invoice_R2] =
   (200, [invoice_R1\<lparr>status := ''authorized'', updatedAt := 1793707205000,
                      issuedAt := Some 1793707205001, nfseNumber := Some ''2026000042'',
                      xmlUrl := Some ''https://files.example/42.xml''\<rparr>,
          invoice_R2])"
proof -
  have a: "FISCAL_WEBHOOK_SECRET example_env = Some ''s3cret''" "''s3cret'' \<noteq> []"
    "Some (example_digest ''s3cret'' ''body-authorized'')
       = Some (hmac_sha256_hex example_env ''s3cret'' ''body-authorized'')"
    "hmac_sha256_hex example_env ''s3cret'' ''body-authorized'' \<noteq> []"
    "parse_webhook example_env ''body-authorized'' = Some authorized_payload"
    "wh_status authorized_payload = ''authorized''"
    by (simp_all add: example_env_def example_digest_def authorized_payload_def)
  have f: "db_up example_env \<and> without_nul (wh_reference authorized_payload)
           \<and> fits_null 50 (wh_nfse_number authorized_payload)
           \<and> fits_null 500 (wh_pdf_url authorized_payload)
           \<and> fits_null 500 (wh_xml_url authorized_payload)"
    by (simp add: example_env_def authorized_payload_def fits_null_def fits_def
                  without_nul_def char_count_def is_continuation_def)
  from webhook_authorized_update [OF a, THEN conjunct2, rule_format, OF f, THEN conjunct1]
  show ?thesis
    by (simp add: authorized_payload_def invoice_R1_def invoice_R2_def example_env_def)
qed




section \<open>Invoice issuance: properties\<close>

lemma insert_nfse_cases:
  assumes "insert_nfse now reference values db = (res, db')"
  shows "(res = None \<and> nfse_rows db' = nfse_rows db)
         \<or> (\<exists>row. res = Some row \<and> nfse_rows db' = nfse_rows db @ [row])"
  using assms by (auto simp: insert_nfse_def Let_def split: option.splits if_splits)

lemma createNFSe_Inr: "createNFSe api request = Inr data \<longleftrightarrow> api request = ApiOk data"
  by (simp add: createNFSe_def split: api_outcome.splits)

lemma createNFSe_NotOk:
  "api request = ApiNotOk message statusText \<Longrightarrow>
   createNFSe api request =
     Inl (Error (''Failed to create NFS-e: ''
                 @ (if truthy message then the message else statusText)))"
  by (simp add: createNFSe_def)

text \<open>
  Both issuers end alike once the profile is found, the amount converted and the
  customer built: one request, and a row written when the request is answered 2xx.
\<close>

lemma request_then_insert:
  assumes "out = (case createNFSe (fiscal_api env) request of
                    Inl e \<Rightarrow> \<lparr>result = Inl e, db_after = db, api_calls = [request]\<rparr>
                  | Inr fiscalResponse \<Rightarrow>
                      (case insert_nfse now (resp_reference fiscalResponse)
                              (values fiscalResponse) db of
                         (None, db') \<Rightarrow>
                           \<lparr>result = Inl Rejected, db_after = db', api_calls = [request]\<rparr>
                       | (Some created, db') \<Rightarrow>
                           \<lparr>result = Inr (nfse_id created), db_after = db',
                            api_calls = [request]\<rparr>))"
  shows "all_or_nothing env db (Some taxInfo) (Inr conversion) out"
  unfolding all_or_nothing_def assms
  by (auto split: option.splits sum.splits prod.splits
           simp: createNFSe_Inr createNFSe_NotOk dest!: insert_nfse_cases)

lemma subscription_all_or_nothing:
  "all_or_nothing env db (select_tax_info db (sp_userId p))
     (convertToBRL (conversion_world env) (sp_amount p) (sp_currency p)
        (sp_stripeChargeId p) (sp_stripePaymentIntentId p))
     (createNFSeForSubscription env db p)"
proof (cases "database_up env")
  case False
  then show ?thesis
    by (simp add: createNFSeForSubscription_def all_or_nothing_def)
next
  case up: True
  show ?thesis
  proof (cases "select_tax_info db (sp_userId p)")
    case None
    with up show ?thesis
      by (simp add: createNFSeForSubscription_def all_or_nothing_def)
  next
    case profile: (Some taxInfo)
    show ?thesis
    proof (cases "convertToBRL (conversion_world env) (sp_amount p) (sp_currency p)
                    (sp_stripeChargeId p) (sp_stripePaymentIntentId p)")
      case (Inl e)
      with up profile show ?thesis
        by (simp add: createNFSeForSubscription_def all_or_nothing_def)
    next
      case converted: (Inr conversion)
      show ?thesis
      proof (cases "buildTomadorFromTaxInfo taxInfo (sp_userEmail p)")
        case (Inl e)
        with up profile converted show ?thesis
          by (simp add: createNFSeForSubscription_def all_or_nothing_def Let_def)
      next
        case (Inr customer)
        have "\<exists>request values. createNFSeForSubscription env db p =
                (case createNFSe (fiscal_api env) request of
                   Inl e \<Rightarrow> \<lparr>result = Inl e, db_after = db, api_calls = [request]\<rparr>
                 | Inr fiscalResponse \<Rightarrow>
                     (case insert_nfse (now_ms (conversion_world env))
                             (resp_reference fiscalResponse) (values fiscalResponse) db of
                        (None, db') \<Rightarrow>
                          \<lparr>result = Inl Rejected, db_after = db', api_calls = [request]\<rparr>
                      | (Some created, db') \<Rightarrow>
                          \<lparr>result = Inr (nfse_id created), db_after = db',
                           api_calls = [request]\<rparr>))"
          unfolding createNFSeForSubscription_def Let_def
          apply (simp only: up profile converted Inr not_True_eq_False if_False
                            option.case sum.case)
          apply (intro exI)
          apply (rule refl)
          done
        then obtain request row_of where
          "createNFSeForSubscription env db p =
                (case createNFSe (fiscal_api env) request of
                   Inl e \<Rightarrow> \<lparr>result = Inl e, db_after = db, api_calls = [request]\<rparr>
                 | Inr fiscalResponse \<Rightarrow>
                     (case insert_nfse (now_ms (conversion_world env))
                             (resp_reference fiscalResponse) (row_of fiscalResponse) db of
                        (None, db') \<Rightarrow>
                          \<lparr>result = Inl Rejected, db_after = db', api_calls = [request]\<rparr>
                      | (Some created, db') \<Rightarrow>
                          \<lparr>result = Inr (nfse_id created), db_after = db',
                           api_calls = [request]\<rparr>))"
          by blast
        then have "all_or_nothing env db (Some taxInfo) (Inr conversion)
                     (createNFSeForSubscription env db p)"
          by (rule request_then_insert)
        with profile converted show ?thesis
          by simp
      qed
    qed
  qed
qed

lemma credit_all_or_nothing:
  "all_or_nothing env db (select_tax_info db (cp_userId p))
     (convertToBRL (conversion_world env) (cp_amount p) (cp_currency p)
        (cp_stripeChargeId p) (Some (cp_stripePaymentIntentId p)))
     (createNFSeForCreditPurchase env db p)"
proof (cases "database_up env")
  case False
  then show ?thesis
    by (simp add: createNFSeForCreditPurchase_def all_or_nothing_def)
next
  case up: True
  show ?thesis
  proof (cases "select_tax_info db (cp_userId p)")
    case None
    with up show ?thesis
      by (simp add: createNFSeForCreditPurchase_def all_or_nothing_def)
  next
    case profile: (Some taxInfo)
    show ?thesis
    proof (cases "convertToBRL (conversion_world env) (cp_amount p) (cp_currency p)
                    (cp_stripeChargeId p) (Some (cp_stripePaymentIntentId p))")
      case (Inl e)
      with up profile show ?thesis
        by (simp add: createNFSeForCreditPurchase_def all_or_nothing_def)
    next
      case converted: (Inr conversion)
      show ?thesis
      proof (cases "buildTomadorFromTaxInfo taxInfo (cp_userEmail p)")
        case (Inl e)
        with up profile converted show ?thesis
          by (simp add: createNFSeForCreditPurchase_def all_or_nothing_def Let_def)
      next
        case (Inr customer)
        have "\<exists>request values. createNFSeForCreditPurchase env db p =
                (case createNFSe (fiscal_api env) request of
                   Inl e \<Rightarrow> \<lparr>result = Inl e, db_after = db, api_calls = [request]\<rparr>
                 | Inr fiscalResponse \<Rightarrow>
                     (case insert_nfse (now_ms (conversion_world env))
                             (resp_reference fiscalResponse) (values fiscalResponse) db of
                        (None, db') \<Rightarrow>
                          \<lparr>result = Inl Rejected, db_after = db', api_calls = [request]\<rparr>
                      | (Some created, db') \<Rightarrow>
                          \<lparr>result = Inr (nfse_id created), db_after = db',
                           api_calls = [request]\<rparr>))"
          unfolding createNFSeForCreditPurchase_def Let_def
          apply (simp only: up profile converted Inr not_True_eq_False if_False
                            option.case sum.case)
          apply (intro exI)
          apply (rule refl)
          done
        then obtain request row_of where
          "createNFSeForCreditPurchase env db p =
                (case createNFSe (fiscal_api env) request of
                   Inl e \<Rightarrow> \<lparr>result = Inl e, db_after = db, api_calls = [request]\<rparr>
                 | Inr fiscalResponse \<Rightarrow>
                     (case insert_nfse (now_ms (conversion_world env))
                             (resp_reference fiscalResponse) (row_of fiscalResponse) db of
                        (None, db') \<Rightarrow>
                          \<lparr>result = Inl Rejected, db_after = db', api_calls = [request]\<rparr>
                      | (Some created, db') \<Rightarrow>
                          \<lparr>result = Inr (nfse_id created), db_after = db',
                           api_calls = [request]\<rparr>))"
          by blast
        then have "all_or_nothing env db (Some taxInfo) (Inr conversion)
                     (createNFSeForCreditPurchase env db p)"
          by (rule request_then_insert)
        with profile converted show ?thesis
          by simp
      qed
    qed
  qed
qed

text \<open>
  Claim C3. Issuance is all-or-nothing on both paths. In the outcome of every call of
  \<open>createNFSeForSubscription\<close> or \<open>createNFSeForCreditPurchase\<close>: an absent tax profile
  makes the call throw before any request is sent, a currency conversion that throws
  makes the call throw before any request is sent, a tax API answer that is not 2xx
  makes the call throw with the message of the API, a call that throws leaves the
  invoice table unchanged, and a row is inserted only after the request to the tax API
  was answered 2xx.
\<close>

theorem issuance_all_or_nothing:
  "all_or_nothing env db (select_tax_info db (sp_userId sp))
     (convertToBRL (conversion_world env) (sp_amount sp) (sp_currency sp)
        (sp_stripeChargeId sp) (sp_stripePaymentIntentId sp))
     (createNFSeForSubscription env db sp)
   \<and> all_or_nothing env db (select_tax_info db (cp_userId cp))
       (convertToBRL (conversion_world env) (cp_amount cp) (cp_currency cp)
          (cp_stripeChargeId cp) (Some (cp_stripePaymentIntentId cp)))
       (createNFSeForCreditPurchase env db cp)"
  using subscription_all_or_nothing [of env db sp] credit_all_or_nothing [of env db cp]
  by blast

lemma BRL_upper: "toUpperCase ''BRL'' = ''BRL''"
  by (simp add: toUpperCase_def upper_char_def)

lemma USD_upper: "toUpperCase ''USD'' = ''USD''"
  by (simp add: toUpperCase_def upper_char_def)

text \<open>The conversion throws on the quote whose sell rate is null.\<close>

lemma convertToBRL_malformed_quote:
  "convertToBRL malformed_quote (Fin 55) ''USD'' None None = Inl TypeError"
proof -
  have "getPTAXRate malformed_quote ''USD'' None =
          Some \<lparr>buyRate = None, sellRate = None, rate_date = ''2026-11-03 13:09:41.123''\<rparr>"
    by (subst getPTAXRate.simps) (simp add: malformed_quote_def)
  then show ?thesis
    by (simp add: convertToBRL_def USD_upper Let_def)
qed

lemma subscription_misquoted:
  "createNFSeForSubscription misquoted_issuer example_db dollar_payment =
     \<lparr>result = Inl TypeError, db_after = example_db, api_calls = []\<rparr>"
  using convertToBRL_malformed_quote
  by (simp add: createNFSeForSubscription_def misquoted_issuer_def accepting_issuer_def
        example_db_def dollar_payment_def subscription_payment_def select_tax_info_def
        profile_without_document_def)

lemma subscription_rejected:
  "\<exists>request. createNFSeForSubscription rejecting_issuer example_db subscription_payment =
     \<lparr>result = Inl (Error ''Failed to create NFS-e: tomador invalido''),
      db_after = example_db, api_calls = [request]\<rparr>"
  by (simp add: createNFSeForSubscription_def rejecting_issuer_def accepting_issuer_def
        example_db_def subscription_payment_def select_tax_info_def profile_without_document_def
        convertToBRL_def BRL_upper Let_def buildTomadorFromTaxInfo_def createNFSe_def)

lemma credit_without_profile:
  "createNFSeForCreditPurchase accepting_issuer example_db credit_payment =
     \<lparr>result = Inl (Error ''User tax information not found''),
      db_after = example_db, api_calls = []\<rparr>"
  by (simp add: createNFSeForCreditPurchase_def accepting_issuer_def
        example_db_def credit_payment_def select_tax_info_def profile_without_document_def)

text \<open>
  Three instances: a subscription payment whose request the tax API rejects, one whose
  currency conversion throws, and a credit purchase of a user without a tax profile.
\<close>

theorem issuance_all_or_nothing_witness:
  "result (createNFSeForSubscription rejecting_issuer example_db subscription_payment)
     = Inl (Error ''Failed to create NFS-e: tomador invalido'')
   \<and> nfse_rows (db_after (createNFSeForSubscription rejecting_issuer example_db
                            subscription_payment))
     = nfse_rows example_db
   \<and> convertToBRL (conversion_world misquoted_issuer) (sp_amount dollar_payment)
        (sp_currency dollar_payment) (sp_stripeChargeId dollar_payment)
        (sp_stripePaymentIntentId dollar_payment) = Inl TypeError
   \<and> createNFSeForSubscription misquoted_issuer example_db dollar_payment
     = \<lparr>result = Inl TypeError, db_after = example_db, api_calls = []\<rparr>
   \<and> createNFSeForCreditPurchase accepting_issuer example_db credit_payment
     = \<lparr>result = Inl (Error ''User tax information not found''),
        db_after = example_db, api_calls = []\<rparr>"
proof -
  obtain request where
    s: "createNFSeForSubscription rejecting_issuer example_db subscription_payment =
          \<lparr>result = Inl (Error ''Failed to create NFS-e: tomador invalido''),
           db_after = example_db, api_calls = [request]\<rparr>"
    using subscription_rejected by blast
  have c: "convertToBRL (conversion_world misquoted_issuer) (sp_amount dollar_payment)
             (sp_currency dollar_payment) (sp_stripeChargeId dollar_payment)
             (sp_stripePaymentIntentId dollar_payment) = Inl TypeError"
    using convertToBRL_malformed_quote
    by (simp add: misquoted_issuer_def dollar_payment_def subscription_payment_def)
  have p: "select_tax_info example_db (sp_userId dollar_payment) \<noteq> None"
    "database_up misquoted_issuer"
    by (simp_all add: select_tax_info_def example_db_def dollar_payment_def
                      subscription_payment_def profile_without_document_def
                      misquoted_issuer_def accepting_issuer_def)
  have "result (createNFSeForSubscription misquoted_issuer example_db dollar_payment)
          = Inl TypeError
        \<and> api_calls (createNFSeForSubscription misquoted_issuer example_db dollar_payment) = []
        \<and> nfse_rows (db_after (createNFSeForSubscription misquoted_issuer example_db
                                  dollar_payment)) = nfse_rows example_db"
    using issuance_all_or_nothing
            [where env = misquoted_issuer and db = example_db and sp = dollar_payment,
             THEN conjunct1]
      c p
    by (simp add: all_or_nothing_def)
  then show ?thesis
    by (simp add: s c subscription_misquoted credit_without_profile)
qed

subsection \<open>A domestic profile without a tax document\<close>

lemma tax_data_stored_document:
  assumes "d_isBrazilian d \<longrightarrow> truthy (d_cpfCnpj d)"
  shows "d_isBrazilian (tax_data_stored d) \<longrightarrow> truthy (d_cpfCnpj (tax_data_stored d))"
  using assms
  by (cases "d_cpfCnpj d")
     (simp_all add: tax_data_stored_def stored_null_Some stored_null_None stored_nonempty)

lemma set_tax_info_keeps_document:
  assumes "d_isBrazilian d \<longrightarrow> truthy (d_cpfCnpj d)"
  shows "isBrazilian (set_tax_info d now t) \<longrightarrow> truthy (cpfCnpj (set_tax_info d now t))"
  using assms by (cases "d_cpfCnpj d") (simp_all add: set_tax_info_def keep_or_def)

lemma new_tax_info_keeps_document:
  assumes "d_isBrazilian d \<longrightarrow> truthy (d_cpfCnpj d)"
  shows "isBrazilian (new_tax_info d now uid i) \<longrightarrow> truthy (cpfCnpj (new_tax_info d now uid i))"
  using assms by (simp add: new_tax_info_def)

lemma post_tax_info_rows:
  "userTaxInfo_rows (snd (post_tax_info up now uid d db)) = userTaxInfo_rows db
   \<or> (d_isBrazilian d \<longrightarrow> truthy (d_cpfCnpj d))
      \<and> (userTaxInfo_rows (snd (post_tax_info up now uid d db))
            = map (\<lambda>t. if ti_userId t = uid then set_tax_info (tax_data_stored d) now t else t)
                  (userTaxInfo_rows db)
          \<or> userTaxInfo_rows (snd (post_tax_info up now uid d db))
            = userTaxInfo_rows db
              @ [new_tax_info (tax_data_stored d) now uid (userTaxInfo_seq db + 1)])"
  by (simp add: post_tax_info_def Let_def split: option.splits)

lemma post_tax_info_keeps_documents:
  assumes "\<forall>t \<in> set (userTaxInfo_rows db). isBrazilian t \<longrightarrow> truthy (cpfCnpj t)"
  shows "\<forall>t \<in> set (userTaxInfo_rows (snd (post_tax_info up now uid d db))).
           isBrazilian t \<longrightarrow> truthy (cpfCnpj t)"
  using post_tax_info_rows [of up now uid d db] assms
    set_tax_info_keeps_document [of "tax_data_stored d" now]
    new_tax_info_keeps_document [of "tax_data_stored d" now uid]
    tax_data_stored_document [of d]
  by (elim disjE conjE) auto

lemma buildTomador_domestic_without_document:
  assumes "isBrazilian profile" and "cpfCnpj profile = None" and "fullName profile \<noteq> []"
    and "postalCode profile \<noteq> None"
  shows "\<exists>customer. buildTomadorFromTaxInfo profile email = Inr customer
                    \<and> t_cpfCnpj customer = None"
  using assms by (auto simp: buildTomadorFromTaxInfo_def)

lemma subscription_calls_api:
  assumes "select_tax_info db (sp_userId p) = Some profile" and "database_up env"
    and "buildTomadorFromTaxInfo profile (sp_userEmail p) = Inr customer"
    and "convertToBRL (conversion_world env) (sp_amount p) (sp_currency p)
           (sp_stripeChargeId p) (sp_stripePaymentIntentId p) = Inr conversion"
  shows "\<exists>request. api_calls (createNFSeForSubscription env db p) = [request]
           \<and> tomador request = customer"
  using assms
  unfolding createNFSeForSubscription_def Let_def
  by (simp split: sum.splits prod.splits option.splits)

text \<open>
  Claim C6, as amended. A domestic tax profile without a tax document is refused where
  it is submitted: \<open>POST /tax-info\<close> answers 400 and stores nothing, and no request to
  that route leaves such a profile in the table when there was none before. The issuer
  does not check the persisted profile again: for a persisted domestic profile without
  a tax document, with a full name and a postal code, once the currency conversion has
  returned its result, \<open>createNFSeForSubscription\<close> sends one request to the tax API,
  whose customer has no tax document.
\<close>

theorem domestic_profile_gate:
  "(d_isBrazilian d \<and> \<not> truthy (d_cpfCnpj d) \<longrightarrow> post_tax_info up now uid d db = (400, db))
   \<and> ((\<forall>t \<in> set (userTaxInfo_rows db). isBrazilian t \<longrightarrow> truthy (cpfCnpj t)) \<longrightarrow>
        (\<forall>t \<in> set (userTaxInfo_rows (snd (post_tax_info up now uid d db))).
           isBrazilian t \<longrightarrow> truthy (cpfCnpj t)))
   \<and> (select_tax_info db' (sp_userId p) = Some profile \<and> isBrazilian profile
        \<and> cpfCnpj profile = None \<and> fullName profile \<noteq> [] \<and> postalCode profile \<noteq> None
        \<and> database_up env
        \<and> convertToBRL (conversion_world env) (sp_amount p) (sp_currency p)
              (sp_stripeChargeId p) (sp_stripePaymentIntentId p) = Inr conversion \<longrightarrow>
        (\<exists>request. api_calls (createNFSeForSubscription env db' p) = [request]
            \<and> t_cpfCnpj (tomador request) = None))"
proof (intro conjI impI)
  assume "d_isBrazilian d \<and> \<not> truthy (d_cpfCnpj d)"
  then show "post_tax_info up now uid d db = (400, db)"
    by (simp add: post_tax_info_def)
next
  assume "\<forall>t \<in> set (userTaxInfo_rows db). isBrazilian t \<longrightarrow> truthy (cpfCnpj t)"
  then show "\<forall>t \<in> set (userTaxInfo_rows (snd (post_tax_info up now uid d db))).
               isBrazilian t \<longrightarrow> truthy (cpfCnpj t)"
    by (rule post_tax_info_keeps_documents)
next
  assume a: "select_tax_info db' (sp_userId p) = Some profile \<and> isBrazilian profile
        \<and> cpfCnpj profile = None \<and> fullName profile \<noteq> [] \<and> postalCode profile \<noteq> None
        \<and> database_up env
        \<and> convertToBRL (conversion_world env) (sp_amount p) (sp_currency p)
              (sp_stripeChargeId p) (sp_stripePaymentIntentId p) = Inr conversion"
  then obtain customer where
    c: "buildTomadorFromTaxInfo profile (sp_userEmail p) = Inr customer"
    and n: "t_cpfCnpj customer = None"
    using buildTomador_domestic_without_document [of profile "sp_userEmail p"] by blast
  with a subscription_calls_api [of db' p profile env customer conversion]
  show "\<exists>request. api_calls (createNFSeForSubscription env db' p) = [request]
            \<and> t_cpfCnpj (tomador request) = None"
    by auto
qed

lemma description_without_nul:
  "CHR 0x00 \<notin> set (buildServiceDescription ''Pro'' (Fin 100) ''BRL'' (Fin 1) ''stripe_balance'')"
  by (simp add: buildServiceDescription_def toFixed_eval)

lemma subscription_accepted:
  "\<exists>request row.
     createNFSeForSubscription accepting_issuer example_db subscription_payment =
       \<lparr>result = Inr 1, db_after = example_db\<lparr>nfse_rows := [row], nfse_seq := 1\<rparr>,
        api_calls = [request]\<rparr>
     \<and> t_cpfCnpj (tomador request) = None \<and> customerDocument row = None"
  by (simp add: createNFSeForSubscription_def accepting_issuer_def
        example_db_def subscription_payment_def select_tax_info_def profile_without_document_def
        convertToBRL_def BRL_upper Let_def buildTomadorFromTaxInfo_def createNFSe_def
        insert_nfse_def document_of_def nfse_accepted_def nfse_stored_def or_undefined_def
        varchar_eval description_without_nul)

text \<open>
  An instance of each part: the submission refused, and the persisted profile for which
  the issuer sends its request.
\<close>

theorem domestic_profile_gate_witness:
  "post_tax_info True 1793707200000 7 submission_without_document
      (example_db\<lparr>userTaxInfo_rows := []\<rparr>) = (400, example_db\<lparr>userTaxInfo_rows := []\<rparr>)
   \<and> map (t_cpfCnpj \<circ> tomador)
        (api_calls (createNFSeForSubscription accepting_issuer example_db subscription_payment))
       = [None]"
proof -
  have "\<exists>conversion. convertToBRL rates_down (Fin 100) ''BRL'' None None = Inr conversion"
    by (simp add: convertToBRL_def BRL_upper)
  then obtain conversion where
    "convertToBRL rates_down (Fin 100) ''BRL'' None None = Inr conversion" ..
  then have "\<exists>request.
      api_calls (createNFSeForSubscription accepting_issuer example_db subscription_payment)
        = [request]
      \<and> t_cpfCnpj (tomador request) = None"
    using domestic_profile_gate
            [where db' = example_db and p = subscription_payment
               and profile = profile_without_document and env = accepting_issuer
               and conversion = conversion]
    by (simp add: select_tax_info_def example_db_def subscription_payment_def
                  profile_without_document_def accepting_issuer_def)
  moreover have "post_tax_info True 1793707200000 7 submission_without_document
      (example_db\<lparr>userTaxInfo_rows := []\<rparr>) = (400, example_db\<lparr>userTaxInfo_rows := []\<rparr>)"
    using domestic_profile_gate
            [where d = submission_without_document and up = True and now = 1793707200000
               and uid = 7 and db = "example_db\<lparr>userTaxInfo_rows := []\<rparr>"]
    by (simp add: submission_without_document_def)
  ultimately show ?thesis
    by auto
qed

text \<open>
  The claim as stated has the issuer refuse before any call of the tax API. For the
  persisted domestic profile without a tax document, the issuer finds the profile, sends
  one request, and writes the invoice.
\<close>

theorem issuance_without_document_counterexample:
  "isBrazilian profile_without_document \<and> cpfCnpj profile_without_document = None
   \<and> select_tax_info example_db (sp_userId subscription_payment)
       = Some profile_without_document
   \<and> length (api_calls (createNFSeForSubscription accepting_issuer example_db
                          subscription_payment)) = 1
   \<and> result (createNFSeForSubscription accepting_issuer example_db subscription_payment)
       = Inr 1
   \<and> length (nfse_rows (db_after (createNFSeForSubscription accepting_issuer example_db
                                   subscription_payment))) = 1"
proof -
  obtain request row where
    "createNFSeForSubscription accepting_issuer example_db subscription_payment =
       \<lparr>result = Inr 1, db_after = example_db\<lparr>nfse_rows := [row], nfse_seq := 1\<rparr>,
        api_calls = [request]\<rparr>"
    using subscription_accepted by blast
  then show ?thesis
    by (simp add: profile_without_document_def example_db_def select_tax_info_def
                  subscription_payment_def)
qed

end
